theory Spec2Isabelle
  imports Complex_Main
begin

section \<open>Python values, dictionaries and exceptions\<close>

text \<open>
  The configuration record \<^verbatim>\<open>data\<close> is a Python dictionary from strings to numbers and
  lists of numbers. Integers and floats are kept apart (a float is an exact rational
  here: the model only stores and compares the values, it never rounds them).
\<close>

datatype pyval =
    PyNone
  | PyBool bool
  | PyInt int
  | PyFloat rat
  | PyStr string
  | PyList "pyval list"

datatype py_error = KeyError string | TypeError | ValueError

type_synonym pydict = "string \<rightharpoonup> pyval"

text \<open>\<^verbatim>\<open>d.get(k, default)\<close>; \<^verbatim>\<open>d.get(k)\<close> is \<open>dict_get d k PyNone\<close>.\<close>

definition dict_get :: "pydict \<Rightarrow> string \<Rightarrow> pyval \<Rightarrow> pyval" where
  "dict_get d k dflt = (case d k of None \<Rightarrow> dflt | Some v \<Rightarrow> v)"

text \<open>\<^verbatim>\<open>d[k]\<close> raises KeyError on a missing key.\<close>

definition dict_item :: "pydict \<Rightarrow> string \<Rightarrow> py_error + pyval" where
  "dict_item d k = (case d k of None \<Rightarrow> Inl (KeyError k) | Some v \<Rightarrow> Inr v)"

text \<open>\<^verbatim>\<open>k in d\<close>.\<close>

definition dict_contains :: "pydict \<Rightarrow> string \<Rightarrow> bool" where
  "dict_contains d k = (d k \<noteq> None)"

text \<open>
  \<^verbatim>\<open>range(h)\<close>: the integers from 0 below \<open>h\<close>, empty when \<open>h \<le> 0\<close>; a bool counts as
  the integer 0 or 1; any other value raises TypeError.
\<close>

fun py_range :: "pyval \<Rightarrow> py_error + int list" where
  "py_range (PyInt h) = Inr [0..h - 1]"
| "py_range (PyBool b) = Inr (if b then [0] else [])"
| "py_range v = Inl TypeError"

text \<open>
  Statements in sequence, each of which may raise: the first exception ends the sequence.
  \<open>for_each\<close> is a loop whose body may raise.
\<close>

definition and_then :: "'e + 'a \<Rightarrow> ('a \<Rightarrow> 'e + 'b) \<Rightarrow> 'e + 'b" where
  "and_then r f = (case r of Inl e \<Rightarrow> Inl e | Inr x \<Rightarrow> f x)"

fun for_each :: "('a \<Rightarrow> 's \<Rightarrow> 'e + 's) \<Rightarrow> 'a list \<Rightarrow> 's \<Rightarrow> 'e + 's" where
  "for_each f [] s = Inr s"
| "for_each f (x # xs) s = (case f x s of Inl e \<Rightarrow> Inl e | Inr s' \<Rightarrow> for_each f xs s')"

section \<open>The network\<close>

text \<open>
  A network is the sequence of components in the order they were added, each with its
  class, its name and the keyword arguments of the \<^verbatim>\<open>add\<close> call that created it, plus the
  snapshots.

  Of the network library, two checks are modelled, both of which end the construction
  with ValueError: \<^verbatim>\<open>set_snapshots\<close> refuses an empty sequence of snapshots, and \<^verbatim>\<open>add\<close>
  takes a list given for an attribute as a series over the snapshots and refuses it when
  its length is not the number of snapshots. A component that passes is recorded with
  the arguments as given; the library's conversion of the stored numbers to floats is not
  modelled.
\<close>

datatype comp_class = Bus | Generator | Load | Link | StorageUnit

record component =
  cls :: comp_class
  cname :: string
  attrs :: "(string \<times> pyval) list"

record network =
  snapshots :: "int list"
  components :: "component list"

definition empty_network :: network where
  "empty_network = \<lparr>snapshots = [], components = []\<rparr>"

definition set_snapshots :: "network \<Rightarrow> int list \<Rightarrow> py_error + network" where
  "set_snapshots n ts = (if ts = [] then Inl ValueError else Inr (n\<lparr>snapshots := ts\<rparr>))"

text \<open>A network with one more component, unchecked.\<close>

definition with_component :: "network \<Rightarrow> component \<Rightarrow> network" where
  "with_component n x = n\<lparr>components := components n @ [x]\<rparr>"

definition series_fits :: "network \<Rightarrow> pyval \<Rightarrow> bool" where
  "series_fits n v = (case v of PyList xs \<Rightarrow> length xs = length (snapshots n) | _ \<Rightarrow> True)"

text \<open>
  \<^verbatim>\<open>n.add(class, name, **kwargs)\<close>, the component standing for the three arguments of
  the call.
\<close>

definition add :: "network \<Rightarrow> component \<Rightarrow> py_error + network" where
  "add n x =
     (if list_all (\<lambda>kv. series_fits n (snd kv)) (attrs x) then Inr (with_component n x)
      else Inl ValueError)"

text \<open>\<^verbatim>\<open>n.links.index\<close> and its siblings: the names of the components of one class.\<close>

definition index_of :: "comp_class \<Rightarrow> network \<Rightarrow> string list" where
  "index_of c n = map cname (filter (\<lambda>x. cls x = c) (components n))"

text \<open>The component of a class with a given name (the first one added).\<close>

definition find_component :: "network \<Rightarrow> comp_class \<Rightarrow> string \<Rightarrow> component option" where
  "find_component n c nm = find (\<lambda>x. cls x = c \<and> cname x = nm) (components n)"

section \<open>IESModel: construction\<close>

record ies_model =
  model_data :: pydict
  model_hours :: pyval
  model_n :: network

text \<open>
  \<^verbatim>\<open>__init__\<close>: \<^verbatim>\<open>hours = data.get('hours', 24)\<close>, a fresh network, snapshots
  \<^verbatim>\<open>range(hours)\<close>.
\<close>

definition IESModel_init :: "pydict \<Rightarrow> py_error + ies_model" where
  "IESModel_init d =
     (let hours = dict_get d ''hours'' (PyInt 24) in
      case py_range hours of
        Inl e \<Rightarrow> Inl e
      | Inr ts \<Rightarrow>
          (case set_snapshots empty_network ts of
             Inl e \<Rightarrow> Inl e
           | Inr n \<Rightarrow> Inr \<lparr>model_data = d, model_hours = hours, model_n = n\<rparr>))"

text \<open>\<^verbatim>\<open>components is None or k in components\<close>.\<close>

definition selected :: "string list option \<Rightarrow> string \<Rightarrow> bool" where
  "selected comps k = (case comps of None \<Rightarrow> True | Some cs \<Rightarrow> k \<in> set cs)"

text \<open>
  \<^verbatim>\<open>all_devices = components if components is not None else [...]\<close>: the eight optional
  devices of the default portfolio.
\<close>

definition all_devices_of :: "string list option \<Rightarrow> string list" where
  "all_devices_of comps =
     (case comps of
        Some cs \<Rightarrow> cs
      | None \<Rightarrow> [''electric_boiler'', ''ashp'', ''gshp_shallow'', ''gshp_deep'',
                 ''electrolyzer'', ''fuel_cell'', ''battery'', ''h2_storage''])"

text \<open>Step 1 of \<^verbatim>\<open>build_model\<close>: the four buses, unconditionally.\<close>

definition add_buses :: "network \<Rightarrow> py_error + network" where
  "add_buses n =
     and_then (add n \<lparr>cls = Bus, cname = ''electricity'', attrs = [(''carrier'', PyStr ''AC'')]\<rparr>)
       (\<lambda>n1.
     and_then (add n1 \<lparr>cls = Bus, cname = ''heat'', attrs = [(''carrier'', PyStr ''heat'')]\<rparr>)
       (\<lambda>n2.
     and_then (add n2 \<lparr>cls = Bus, cname = ''cooling'', attrs = [(''carrier'', PyStr ''cooling'')]\<rparr>)
       (\<lambda>n3.
     add n3 \<lparr>cls = Bus, cname = ''hydrogen'', attrs = [(''carrier'', PyStr ''H2'')]\<rparr>)))"

text \<open>
  Step 2: the generators. The arguments of \<^verbatim>\<open>self.n.add("Generator", "grid", ...)\<close> and
  of \<^verbatim>\<open>self.n.add("Generator", "pv", ...)\<close>; \<^verbatim>\<open>self.data['pv_pu']\<close> raises KeyError when
  the key is absent, before the call.
\<close>

definition grid_generator :: "pydict \<Rightarrow> component" where
  "grid_generator d =
     \<lparr>cls = Generator, cname = ''grid'',
      attrs = [(''bus'', PyStr ''electricity''),
               (''p_nom_extendable'', PyBool True),
               (''marginal_cost'', dict_get d ''grid_cost'' PyNone)]\<rparr>"

definition add_grid :: "pydict \<Rightarrow> string list option \<Rightarrow> network \<Rightarrow> py_error + network" where
  "add_grid d comps n = (if selected comps ''grid'' then add n (grid_generator d) else Inr n)"

definition pv_generator :: "pydict \<Rightarrow> pyval \<Rightarrow> component" where
  "pv_generator d pu =
     \<lparr>cls = Generator, cname = ''pv'',
      attrs = [(''bus'', PyStr ''electricity''),
               (''p_nom'', dict_get d ''pv_p_nom'' (PyInt 100)),
               (''p_max_pu'', pu),
               (''marginal_cost'', dict_get d ''pv_cost'' (PyFloat (1 / 100)))]\<rparr>"

definition add_pv :: "pydict \<Rightarrow> string list option \<Rightarrow> network \<Rightarrow> py_error + network" where
  "add_pv d comps n =
     (if selected comps ''pv'' then
        (case dict_item d ''pv_pu'' of
           Inl e \<Rightarrow> Inl e
         | Inr pu \<Rightarrow> add n (pv_generator d pu))
      else Inr n)"

text \<open>
  The loads: electricity, heat and cooling demand are read with \<^verbatim>\<open>self.data[...]\<close>
  (KeyError when absent), each right before its load is added; the hydrogen load is
  guarded by \<^verbatim>\<open>'h2_load' in self.data\<close>.
\<close>

definition add_loads :: "pydict \<Rightarrow> network \<Rightarrow> py_error + network" where
  "add_loads d n =
     (case dict_item d ''elec_load'' of
        Inl e \<Rightarrow> Inl e
      | Inr el \<Rightarrow>
     and_then (add n \<lparr>cls = Load, cname = ''elec_load'',
                      attrs = [(''bus'', PyStr ''electricity''), (''p_set'', el)]\<rparr>)
       (\<lambda>n1.
     (case dict_item d ''heat_load'' of
        Inl e \<Rightarrow> Inl e
      | Inr hl \<Rightarrow>
     and_then (add n1 \<lparr>cls = Load, cname = ''heat_load'',
                       attrs = [(''bus'', PyStr ''heat''), (''p_set'', hl)]\<rparr>)
       (\<lambda>n2.
     (case dict_item d ''cool_load'' of
        Inl e \<Rightarrow> Inl e
      | Inr cl \<Rightarrow>
     and_then (add n2 \<lparr>cls = Load, cname = ''cool_load'',
                       attrs = [(''bus'', PyStr ''cooling''), (''p_set'', cl)]\<rparr>)
       (\<lambda>n3.
     if dict_contains d ''h2_load'' then
       (case dict_item d ''h2_load'' of
          Inl e \<Rightarrow> Inl e
        | Inr h2 \<Rightarrow>
            add n3 \<lparr>cls = Load, cname = ''h2_load'',
                    attrs = [(''bus'', PyStr ''hydrogen''), (''p_set'', h2)]\<rparr>)
     else Inr n3))))))"

text \<open>
  Step 3: links and storage units, each guarded by membership in \<^verbatim>\<open>all_devices\<close>. Each
  component below holds the arguments of the \<^verbatim>\<open>add\<close> call of its device.
\<close>

definition electric_boiler_link :: "pydict \<Rightarrow> component" where
  "electric_boiler_link d =
     \<lparr>cls = Link, cname = ''electric_boiler'',
      attrs = [(''bus0'', PyStr ''electricity''),
               (''bus1'', PyStr ''heat''),
               (''p_nom'', dict_get d ''boiler_p_nom'' (PyInt 20)),
               (''efficiency'', dict_get d ''boiler_eff'' (PyFloat (98 / 100)))]\<rparr>"

definition add_electric_boiler :: "pydict \<Rightarrow> string list \<Rightarrow> network \<Rightarrow> py_error + network" where
  "add_electric_boiler d devs n =
     (if ''electric_boiler'' \<in> set devs then add n (electric_boiler_link d) else Inr n)"

text \<open>
  \<^verbatim>\<open>hp_types\<close>, in insertion order: the key and the prefix of each heat-pump type (the
  display name, which the loop never reads, is left out).
\<close>

definition hp_types :: "(string \<times> string) list" where
  "hp_types = [(''ashp'', ''ashp''), (''gshp_shallow'', ''gshp_shallow''),
               (''gshp_deep'', ''gshp_deep'')]"

definition heating_link :: "pydict \<Rightarrow> string \<Rightarrow> component" where
  "heating_link d prefix =
     \<lparr>cls = Link, cname = prefix @ ''_heating'',
      attrs = [(''bus0'', PyStr ''electricity''),
               (''bus1'', PyStr ''heat''),
               (''p_nom'', dict_get d (prefix @ ''_p_nom'') (PyInt 40)),
               (''efficiency'', dict_get d (prefix @ ''_eff'') (PyFloat 3))]\<rparr>"

definition cooling_link :: "pydict \<Rightarrow> string \<Rightarrow> component" where
  "cooling_link d prefix =
     \<lparr>cls = Link, cname = prefix @ ''_cooling'',
      attrs = [(''bus0'', PyStr ''electricity''),
               (''bus1'', PyStr ''cooling''),
               (''p_nom'', dict_get d (prefix @ ''_p_nom'') (PyInt 40)),
               (''efficiency'', dict_get d (prefix @ ''_eer'') (PyFloat (35 / 10)))]\<rparr>"

text \<open>One iteration of the loop over \<^verbatim>\<open>hp_types.items()\<close>.\<close>

definition add_heat_pump :: "pydict \<Rightarrow> string list \<Rightarrow> string \<times> string \<Rightarrow> network \<Rightarrow> py_error + network" where
  "add_heat_pump d devs kp n =
     (case kp of (hp_key, prefix) \<Rightarrow>
        if hp_key \<in> set devs then
          and_then (add n (heating_link d prefix)) (\<lambda>n1. add n1 (cooling_link d prefix))
        else Inr n)"

definition add_heat_pumps :: "pydict \<Rightarrow> string list \<Rightarrow> network \<Rightarrow> py_error + network" where
  "add_heat_pumps d devs n = for_each (add_heat_pump d devs) hp_types n"

definition electrolyzer_link :: "pydict \<Rightarrow> component" where
  "electrolyzer_link d =
     \<lparr>cls = Link, cname = ''electrolyzer'',
      attrs = [(''bus0'', PyStr ''electricity''),
               (''bus1'', PyStr ''hydrogen''),
               (''p_nom'', dict_get d ''ely_p_nom'' (PyInt 50)),
               (''efficiency'', dict_get d ''ely_eff'' (PyFloat (75 / 100)))]\<rparr>"

definition add_electrolyzer :: "pydict \<Rightarrow> string list \<Rightarrow> network \<Rightarrow> py_error + network" where
  "add_electrolyzer d devs n =
     (if ''electrolyzer'' \<in> set devs then add n (electrolyzer_link d) else Inr n)"

definition fuel_cell_link :: "pydict \<Rightarrow> component" where
  "fuel_cell_link d =
     \<lparr>cls = Link, cname = ''fuel_cell'',
      attrs = [(''bus0'', PyStr ''hydrogen''),
               (''bus1'', PyStr ''electricity''),
               (''bus2'', PyStr ''heat''),
               (''p_nom'', dict_get d ''fc_p_nom'' (PyInt 50)),
               (''efficiency'', dict_get d ''fc_eff_elec'' (PyFloat (45 / 100))),
               (''efficiency2'', dict_get d ''fc_eff_heat'' (PyFloat (40 / 100)))]\<rparr>"

definition add_fuel_cell :: "pydict \<Rightarrow> string list \<Rightarrow> network \<Rightarrow> py_error + network" where
  "add_fuel_cell d devs n =
     (if ''fuel_cell'' \<in> set devs then add n (fuel_cell_link d) else Inr n)"

definition battery_unit :: "pydict \<Rightarrow> component" where
  "battery_unit d =
     \<lparr>cls = StorageUnit, cname = ''battery'',
      attrs = [(''bus'', PyStr ''electricity''),
               (''p_nom'', dict_get d ''bat_p_nom'' (PyInt 30)),
               (''max_hours'', dict_get d ''bat_hours'' (PyInt 4)),
               (''efficiency_store'', dict_get d ''bat_eff_store'' (PyFloat (9 / 10))),
               (''efficiency_dispatch'', dict_get d ''bat_eff_dispatch'' (PyFloat (9 / 10))),
               (''cyclic_state_of_charge'', PyBool True),
               (''marginal_cost'', PyFloat (1 / 100))]\<rparr>"

definition add_battery :: "pydict \<Rightarrow> string list \<Rightarrow> network \<Rightarrow> py_error + network" where
  "add_battery d devs n = (if ''battery'' \<in> set devs then add n (battery_unit d) else Inr n)"

definition h2_storage_unit :: "pydict \<Rightarrow> component" where
  "h2_storage_unit d =
     \<lparr>cls = StorageUnit, cname = ''h2_storage'',
      attrs = [(''bus'', PyStr ''hydrogen''),
               (''p_nom'', dict_get d ''h2s_p_nom'' (PyInt 100)),
               (''max_hours'', dict_get d ''h2s_hours'' (PyInt 20)),
               (''efficiency_store'', PyFloat (98 / 100)),
               (''efficiency_dispatch'', PyFloat (98 / 100)),
               (''cyclic_state_of_charge'', PyBool True),
               (''marginal_cost'', PyFloat (5 / 1000))]\<rparr>"

definition add_h2_storage :: "pydict \<Rightarrow> string list \<Rightarrow> network \<Rightarrow> py_error + network" where
  "add_h2_storage d devs n =
     (if ''h2_storage'' \<in> set devs then add n (h2_storage_unit d) else Inr n)"

text \<open>
  \<^verbatim>\<open>build_model\<close>: the statements above in the order of the source. An exception ends
  the call; the result is then the exception.
\<close>

definition build_model :: "ies_model \<Rightarrow> string list option \<Rightarrow> py_error + ies_model" where
  "build_model self comps =
     (let d = model_data self; devs = all_devices_of comps in
      and_then (add_buses (model_n self)) (\<lambda>n1.
      and_then (add_grid d comps n1) (\<lambda>n2.
      and_then (add_pv d comps n2) (\<lambda>n3.
      and_then (add_loads d n3) (\<lambda>n4.
      and_then (add_electric_boiler d devs n4) (\<lambda>n5.
      and_then (add_heat_pumps d devs n5) (\<lambda>n6.
      and_then (add_electrolyzer d devs n6) (\<lambda>n7.
      and_then (add_fuel_cell d devs n7) (\<lambda>n8.
      and_then (add_battery d devs n8) (\<lambda>n9.
      and_then (add_h2_storage d devs n9) (\<lambda>n10.
      Inr (self\<lparr>model_n := n10\<rparr>))))))))))))"

section \<open>IESModel: the custom constraints\<close>

text \<open>
  The optimisation model that \<^verbatim>\<open>extra_functionality\<close> extends: named variable arrays
  (over the snapshots, possibly binary) and named constraints \<open>lhs \<le> rhs\<close>, each standing for
  one inequality per snapshot. Expressions are kept as the source writes them.
\<close>

datatype lexpr =
    LinkP string
  | ModelVar string
  | Const pyval
  | Plus lexpr lexpr
  | Minus lexpr lexpr
  | Times lexpr lexpr

record variable =
  var_name :: string
  var_coords :: "int list"
  var_binary :: bool

record lin_constraint =
  con_name :: string
  con_lhs :: lexpr
  con_rhs :: lexpr

record lp_model =
  variables :: "variable list"
  constraints :: "lin_constraint list"

text \<open>\<^verbatim>\<open>name in n.model.variables\<close>.\<close>

definition has_variable :: "lp_model \<Rightarrow> string \<Rightarrow> bool" where
  "has_variable m v = (v \<in> set (map var_name (variables m)))"

text \<open>\<^verbatim>\<open>n.model.add_constraints(lhs <= rhs, name=...)\<close>.\<close>

definition add_constraints :: "lp_model \<Rightarrow> lexpr \<Rightarrow> lexpr \<Rightarrow> string \<Rightarrow> lp_model" where
  "add_constraints m l r nm =
     m\<lparr>constraints := constraints m @ [\<lparr>con_name = nm, con_lhs = l, con_rhs = r\<rparr>]\<rparr>"

text \<open>\<^verbatim>\<open>n.model.add_variables(coords=[snapshots], name=..., binary=...)\<close>.\<close>

definition add_variables :: "lp_model \<Rightarrow> int list \<Rightarrow> string \<Rightarrow> bool \<Rightarrow> lp_model" where
  "add_variables m ts nm b =
     m\<lparr>variables := variables m @ [\<lparr>var_name = nm, var_coords = ts, var_binary = b\<rparr>]\<rparr>"

text \<open>
  \<^verbatim>\<open>n.links.at[name, "p_nom"]\<close>: KeyError when no link has the name; a link created
  without \<^verbatim>\<open>p_nom\<close> carries the library's default capacity 0.
\<close>

definition links_at_p_nom :: "network \<Rightarrow> string \<Rightarrow> py_error + pyval" where
  "links_at_p_nom n nm =
     (case find_component n Link nm of
        None \<Rightarrow> Inl (KeyError nm)
      | Some c \<Rightarrow>
          (case map_of (attrs c) ''p_nom'' of
             None \<Rightarrow> Inr (PyFloat 0)
           | Some v \<Rightarrow> Inr v))"

text \<open>
  The body of the loop \<^verbatim>\<open>for prefix in ['ashp', 'gshp_shallow', 'gshp_deep']\<close>: when both
  link names are in the index, one capacity-sharing constraint, one binary variable over
  the snapshots and two exclusion constraints, all with the heating link's \<^verbatim>\<open>p_nom\<close>.
\<close>

definition hp_constraints_step :: "network \<Rightarrow> int list \<Rightarrow> string \<Rightarrow> lp_model \<Rightarrow> py_error + lp_model" where
  "hp_constraints_step n ts prefix m =
     (let heating_name = prefix @ ''_heating'';
          cooling_name = prefix @ ''_cooling''
      in if heating_name \<in> set (index_of Link n) \<and> cooling_name \<in> set (index_of Link n) then
           (let p0_heat = LinkP heating_name;
                p0_cool = LinkP cooling_name
            in case links_at_p_nom n heating_name of
                 Inl e \<Rightarrow> Inl e
               | Inr p_nom \<Rightarrow>
                   (let m1 = add_constraints m (Plus p0_heat p0_cool) (Const p_nom)
                               (prefix @ ''_capacity_sharing'');
                        m2 = add_variables m1 ts (prefix @ ''_mode'') True;
                        z = ModelVar (prefix @ ''_mode'');
                        m3 = add_constraints m2
                               (Minus p0_heat (Times z (Const p_nom))) (Const (PyInt 0))
                               (prefix @ ''_heating_exclusion'');
                        m4 = add_constraints m3
                               (Minus p0_cool (Times (Minus (Const (PyInt 1)) z) (Const p_nom)))
                               (Const (PyInt 0))
                               (prefix @ ''_cooling_exclusion'')
                    in Inr m4))
         else Inr m)"

definition hp_prefixes :: "string list" where
  "hp_prefixes = [''ashp'', ''gshp_shallow'', ''gshp_deep'']"

text \<open>
  \<^verbatim>\<open>extra_functionality(n, snapshots)\<close>, with the model \<^verbatim>\<open>n.model\<close> that it updates as an
  explicit argument: nothing is added when the model has no \<^verbatim>\<open>Link-p\<close> variable.
\<close>

definition extra_functionality :: "network \<Rightarrow> int list \<Rightarrow> lp_model \<Rightarrow> py_error + lp_model" where
  "extra_functionality n ts m =
     (if has_variable m ''Link-p'' then for_each (hp_constraints_step n ts) hp_prefixes m
      else Inr m)"

text \<open>
  What the emitted constraints mean: an assignment gives every link flow and every model
  variable a value per snapshot; an expression with a non-numeric constant has no value.
\<close>

record assignment =
  link_p :: "string \<Rightarrow> int \<Rightarrow> rat"
  model_var :: "string \<Rightarrow> int \<Rightarrow> rat"

fun num_of :: "pyval \<Rightarrow> rat option" where
  "num_of (PyInt i) = Some (of_int i)"
| "num_of (PyFloat r) = Some r"
| "num_of (PyBool b) = Some (if b then 1 else 0)"
| "num_of v = None"

fun eval :: "assignment \<Rightarrow> int \<Rightarrow> lexpr \<Rightarrow> rat option" where
  "eval a t (LinkP nm) = Some (link_p a nm t)"
| "eval a t (ModelVar v) = Some (model_var a v t)"
| "eval a t (Const c) = num_of c"
| "eval a t (Plus x y) =
     (case (eval a t x, eval a t y) of (Some u, Some v) \<Rightarrow> Some (u + v) | _ \<Rightarrow> None)"
| "eval a t (Minus x y) =
     (case (eval a t x, eval a t y) of (Some u, Some v) \<Rightarrow> Some (u - v) | _ \<Rightarrow> None)"
| "eval a t (Times x y) =
     (case (eval a t x, eval a t y) of (Some u, Some v) \<Rightarrow> Some (u * v) | _ \<Rightarrow> None)"

definition holds_at :: "assignment \<Rightarrow> int \<Rightarrow> lin_constraint \<Rightarrow> bool" where
  "holds_at a t c =
     (case (eval a t (con_lhs c), eval a t (con_rhs c)) of
        (Some u, Some v) \<Rightarrow> u \<le> v
      | _ \<Rightarrow> False)"

text \<open>A model with a binary variable is a mixed-integer program.\<close>

definition is_mip :: "lp_model \<Rightarrow> bool" where
  "is_mip m = list_ex var_binary (variables m)"

text \<open>
  The heat-pump constraints as the specification words them, for a family with the given
  prefix and shared capacity: capacity sharing, heating exclusion, cooling exclusion.
\<close>

definition family_present :: "network \<Rightarrow> string \<Rightarrow> bool" where
  "family_present n prefix =
     (prefix @ ''_heating'' \<in> set (index_of Link n) \<and> prefix @ ''_cooling'' \<in> set (index_of Link n))"

definition spec_mode_variable :: "int list \<Rightarrow> string \<Rightarrow> variable" where
  "spec_mode_variable ts prefix = \<lparr>var_name = prefix @ ''_mode'', var_coords = ts, var_binary = True\<rparr>"

definition spec_family_constraints :: "string \<Rightarrow> pyval \<Rightarrow> lin_constraint list" where
  "spec_family_constraints prefix p_nom =
     [\<lparr>con_name = prefix @ ''_capacity_sharing'',
       con_lhs = Plus (LinkP (prefix @ ''_heating'')) (LinkP (prefix @ ''_cooling'')),
       con_rhs = Const p_nom\<rparr>,
      \<lparr>con_name = prefix @ ''_heating_exclusion'',
       con_lhs = Minus (LinkP (prefix @ ''_heating''))
                   (Times (ModelVar (prefix @ ''_mode'')) (Const p_nom)),
       con_rhs = Const (PyInt 0)\<rparr>,
      \<lparr>con_name = prefix @ ''_cooling_exclusion'',
       con_lhs = Minus (LinkP (prefix @ ''_cooling''))
                   (Times (Minus (Const (PyInt 1)) (ModelVar (prefix @ ''_mode''))) (Const p_nom)),
       con_rhs = Const (PyInt 0)\<rparr>]"

text \<open>The heating link's capacity as the formulator reads it (0 when there is no such link).\<close>

definition family_p_nom :: "network \<Rightarrow> string \<Rightarrow> pyval" where
  "family_p_nom n prefix =
     (case links_at_p_nom n (prefix @ ''_heating'') of Inl e \<Rightarrow> PyFloat 0 | Inr v \<Rightarrow> v)"

section \<open>IESModel: solve\<close>

text \<open>
  One call of the library's \<^verbatim>\<open>optimize\<close> returns, or raises an exception derived from
  \<^verbatim>\<open>Exception\<close> (with a message), or raises one that is not (KeyboardInterrupt,
  SystemExit; with its name). The handlers of \<^verbatim>\<open>solve\<close> are \<^verbatim>\<open>except Exception\<close>: they
  catch the first kind only. The source reads the status as \<^verbatim>\<open>results[0]\<close> of a tuple,
  or as the result itself. The behaviour of the backends is a parameter:
  \<open>optimize (Some s)\<close> is the call with \<^verbatim>\<open>solver_name=s\<close>, \<open>optimize None\<close> the call
  without a solver name. Every backend is called at most once in a run, so a function of
  the backend describes any behaviour.
\<close>

datatype py_result = Tuple string string | Plain string

datatype attempt = Raises string | Interrupts string | Returns py_result

fun status_of :: "py_result \<Rightarrow> string" where
  "status_of (Tuple status condition) = status"
| "status_of (Plain status) = status"

text \<open>What a run of \<^verbatim>\<open>solve\<close> does besides returning: the lines printed and the backends called.\<close>

record solve_trace =
  printed :: "string list"
  calls :: "string option list"

text \<open>
  The loop \<^verbatim>\<open>for solver in ['gurobi', 'copt', 'glpk']\<close>. Its result is the flag
  \<^verbatim>\<open>success\<close> after the loop (\<open>Inr\<close>), or the name of the exception that left it
  uncaught (\<open>Inl\<close>).
\<close>

fun solve_loop ::
  "(string option \<Rightarrow> attempt) \<Rightarrow> string list \<Rightarrow> solve_trace \<Rightarrow> (string + bool) \<times> solve_trace" where
  "solve_loop optimize [] tr = (Inr False, tr)"
| "solve_loop optimize (solver # rest) tr =
     (let tr1 = tr\<lparr>printed := printed tr @ [''Attempting optimization with solver: '' @ solver],
                   calls := calls tr @ [Some solver]\<rparr>
      in case optimize (Some solver) of
           Raises e \<Rightarrow>
             solve_loop optimize rest
               (tr1\<lparr>printed := printed tr1 @ [''Solver '' @ solver @ '' failed: '' @ e]\<rparr>)
         | Interrupts x \<Rightarrow> (Inl x, tr1)
         | Returns results \<Rightarrow>
             if status_of results = ''ok'' then
               (Inr True, tr1\<lparr>printed := printed tr1 @ [''Optimization successful with '' @ solver]\<rparr>)
             else solve_loop optimize rest tr1)"

definition backend_priority :: "string list" where
  "backend_priority = [''gurobi'', ''copt'', ''glpk'']"

text \<open>
  \<^verbatim>\<open>solve\<close>: the loop, then the default backend when the loop did not succeed. The
  returned value is the flag alone.
\<close>

definition solve_run :: "(string option \<Rightarrow> attempt) \<Rightarrow> (string + bool) \<times> solve_trace" where
  "solve_run optimize =
     (case solve_loop optimize backend_priority \<lparr>printed = [], calls = []\<rparr> of
        (Inl x, tr) \<Rightarrow> (Inl x, tr)
      | (Inr success, tr) \<Rightarrow>
          if \<not> success then
            (let tr1 = tr\<lparr>printed := printed tr @ [''Trying default solver...''],
                          calls := calls tr @ [None]\<rparr>
             in case optimize None of
                  Raises e \<Rightarrow>
                    (Inr False,
                     tr1\<lparr>printed := printed tr1 @ [''All optimization attempts failed: '' @ e]\<rparr>)
                | Interrupts x \<Rightarrow> (Inl x, tr1)
                | Returns results \<Rightarrow> (Inr True, tr1))
          else (Inr success, tr))"

definition solve :: "(string option \<Rightarrow> attempt) \<Rightarrow> string + bool" where
  "solve optimize = fst (solve_run optimize)"

text \<open>Whether a backend call came back with the status \<^verbatim>\<open>'ok'\<close>.\<close>

definition returns_ok :: "attempt \<Rightarrow> bool" where
  "returns_ok a =
     (case a of Raises e \<Rightarrow> False | Interrupts x \<Rightarrow> False
              | Returns results \<Rightarrow> status_of results = ''ok'')"

text \<open>
  A backend call that fails within the reach of the handlers: it raises an exception
  derived from \<^verbatim>\<open>Exception\<close>, or returns a status other than \<^verbatim>\<open>'ok'\<close>.
\<close>

definition fails :: "attempt \<Rightarrow> bool" where
  "fails a =
     (case a of Raises e \<Rightarrow> True | Interrupts x \<Rightarrow> False
              | Returns results \<Rightarrow> status_of results \<noteq> ''ok'')"

text \<open>
  The lines the loop prints for one backend that fails: the announcement, and the
  message of the exception when the call raised; nothing more when the call returned.
\<close>

definition failure_lines :: "(string option \<Rightarrow> attempt) \<Rightarrow> string \<Rightarrow> string list" where
  "failure_lines optimize solver =
     [''Attempting optimization with solver: '' @ solver] @
     (case optimize (Some solver) of
        Raises e \<Rightarrow> [''Solver '' @ solver @ '' failed: '' @ e]
      | Interrupts x \<Rightarrow> []
      | Returns results \<Rightarrow> [])"

section \<open>The calling script\<close>

text \<open>
  Both callers run \<^verbatim>\<open>model = IESModel(input_data)\<close>, \<^verbatim>\<open>model.build_model(...)\<close> and then
  \<^verbatim>\<open>model.solve()\<close>, with no handler around the first two: an exception there ends the
  run before \<^verbatim>\<open>solve\<close> is called.
\<close>

definition run_simulation ::
  "pydict \<Rightarrow> string list option \<Rightarrow> (string option \<Rightarrow> attempt) \<Rightarrow>
     py_error + (string + bool) \<times> solve_trace" where
  "run_simulation d comps optimize =
     (case IESModel_init d of
        Inl e \<Rightarrow> Inl e
      | Inr model \<Rightarrow>
          (case build_model model comps of
             Inl e \<Rightarrow> Inl e
           | Inr model' \<Rightarrow> Inr (solve_run optimize)))"

text \<open>
  The series that \<^verbatim>\<open>build_model\<close> reads with \<^verbatim>\<open>self.data[...]\<close>, without a default: one of
  them is missing.
\<close>

definition required_series_missing :: "pydict \<Rightarrow> string list option \<Rightarrow> bool" where
  "required_series_missing d comps \<longleftrightarrow>
     (selected comps ''pv'' \<and> d ''pv_pu'' = None)
     \<or> d ''elec_load'' = None \<or> d ''heat_load'' = None \<or> d ''cool_load'' = None"

text \<open>
  The keys of the time series that \<^verbatim>\<open>build_model\<close> hands to the network: the price when
  the grid is instantiated, the availability when the photovoltaic generator is, the
  three demands, and the hydrogen demand when it is supplied.
\<close>

definition series_read :: "pydict \<Rightarrow> string list option \<Rightarrow> string list" where
  "series_read d comps =
     (if selected comps ''grid'' then [''grid_cost''] else []) @
     (if selected comps ''pv'' then [''pv_pu''] else []) @
     [''elec_load'', ''heat_load'', ''cool_load''] @
     (if dict_contains d ''h2_load'' then [''h2_load''] else [])"

text \<open>The configuration holds a list under the key, and its length is not the horizon.\<close>

definition wrong_length :: "nat \<Rightarrow> pydict \<Rightarrow> string \<Rightarrow> bool" where
  "wrong_length H d k = (case d k of Some (PyList xs) \<Rightarrow> length xs \<noteq> H | _ \<Rightarrow> False)"

section \<open>The capacity parameter of each device\<close>

text \<open>
  For each device that \<^verbatim>\<open>build_model\<close> creates with a \<^verbatim>\<open>p_nom\<close> argument: the configuration
  key it is read from and the default used when the key is absent.
\<close>

definition p_nom_parameter :: "string \<Rightarrow> (string \<times> pyval) option" where
  "p_nom_parameter nm =
     map_of
       [(''pv'', (''pv_p_nom'', PyInt 100)),
        (''electric_boiler'', (''boiler_p_nom'', PyInt 20)),
        (''ashp_heating'', (''ashp_p_nom'', PyInt 40)),
        (''ashp_cooling'', (''ashp_p_nom'', PyInt 40)),
        (''gshp_shallow_heating'', (''gshp_shallow_p_nom'', PyInt 40)),
        (''gshp_shallow_cooling'', (''gshp_shallow_p_nom'', PyInt 40)),
        (''gshp_deep_heating'', (''gshp_deep_p_nom'', PyInt 40)),
        (''gshp_deep_cooling'', (''gshp_deep_p_nom'', PyInt 40)),
        (''electrolyzer'', (''ely_p_nom'', PyInt 50)),
        (''fuel_cell'', (''fc_p_nom'', PyInt 50)),
        (''battery'', (''bat_p_nom'', PyInt 30)),
        (''h2_storage'', (''h2s_p_nom'', PyInt 100))] nm"

text \<open>
  What holds of the capacity of a component created by \<^verbatim>\<open>build_model\<close>: no capital cost is
  given; \<^verbatim>\<open>p_nom_extendable\<close> is given, as \<^verbatim>\<open>True\<close>, to the generator \<^verbatim>\<open>grid\<close> alone; and
  \<^verbatim>\<open>p_nom\<close> is given exactly to the devices of the table above, read from the configuration.
\<close>

definition capacity_fixed :: "pydict \<Rightarrow> component \<Rightarrow> bool" where
  "capacity_fixed d c \<longleftrightarrow>
     map_of (attrs c) ''capital_cost'' = None
     \<and> map_of (attrs c) ''p_nom_extendable'' =
         (if cls c = Generator \<and> cname c = ''grid'' then Some (PyBool True) else None)
     \<and> map_of (attrs c) ''p_nom'' =
         map_option (\<lambda>kd. dict_get d (fst kd) (snd kd)) (p_nom_parameter (cname c))"

section \<open>Example inputs\<close>

text \<open>A small configuration with a two-hour horizon, and the model object built from it.\<close>

definition demo_data :: pydict where
  "demo_data =
     [''hours'' \<mapsto> PyInt 2,
      ''elec_load'' \<mapsto> PyList [PyInt 50, PyInt 50],
      ''heat_load'' \<mapsto> PyList [PyInt 30, PyInt 10],
      ''cool_load'' \<mapsto> PyList [PyInt 2, PyInt 5],
      ''h2_load'' \<mapsto> PyList [PyInt 0, PyInt 0],
      ''pv_pu'' \<mapsto> PyList [PyFloat 0, PyFloat (1 / 2)],
      ''grid_cost'' \<mapsto> PyFloat (6 / 10),
      ''ashp_p_nom'' \<mapsto> PyInt 500]"

definition demo_model :: ies_model where
  "demo_model = \<lparr>model_data = demo_data, model_hours = PyInt 2,
                  model_n = \<lparr>snapshots = [0, 1], components = []\<rparr>\<rparr>"

text \<open>The network built from the small configuration with the grid and one heat pump.\<close>

definition demo_network :: network where
  "demo_network = model_n (projr (build_model demo_model (Some [''grid'', ''ashp''])))"

text \<open>A model as the library hands it to \<^verbatim>\<open>extra_functionality\<close>: the link flows, no constraint of interest.\<close>

definition demo_base_model :: lp_model where
  "demo_base_model =
     \<lparr>variables = [\<lparr>var_name = ''Link-p'', var_coords = [0, 1], var_binary = False\<rparr>],
      constraints = []\<rparr>"

text \<open>An assignment: the heat pump heats with 300, the mode variable is 1.\<close>

definition demo_assignment :: assignment where
  "demo_assignment =
     \<lparr>link_p = (\<lambda>nm t. if nm = ''ashp_heating'' then 300 else 0),
      model_var = (\<lambda>v t. 1)\<rparr>"

text \<open>Giving a link another name.\<close>

definition rename_link :: "string \<Rightarrow> string \<Rightarrow> network \<Rightarrow> network" where
  "rename_link old new n =
     n\<lparr>components :=
         map (\<lambda>c. if cls c = Link \<and> cname c = old then c\<lparr>cname := new\<rparr> else c) (components n)\<rparr>"

text \<open>
  Two networks made by hand, without buses: a heat-pump pair whose links disagree on the
  capacity and name buses that do not exist, and the same pair with one capacity.
\<close>

definition mismatched_network :: network where
  "mismatched_network =
     \<lparr>snapshots = [0, 1],
      components =
        [\<lparr>cls = Link, cname = ''gshp_deep_heating'',
          attrs = [(''bus0'', PyStr ''electricity''), (''bus1'', PyStr ''heat''),
                   (''p_nom'', PyInt 100)]\<rparr>,
         \<lparr>cls = Link, cname = ''gshp_deep_cooling'',
          attrs = [(''bus0'', PyStr ''electricity''), (''bus1'', PyStr ''cooling''),
                   (''p_nom'', PyInt 60)]\<rparr>]\<rparr>"

definition matched_network :: network where
  "matched_network =
     \<lparr>snapshots = [0, 1],
      components =
        [\<lparr>cls = Link, cname = ''gshp_deep_heating'',
          attrs = [(''bus0'', PyStr ''electricity''), (''bus1'', PyStr ''heat''),
                   (''p_nom'', PyInt 100)]\<rparr>,
         \<lparr>cls = Link, cname = ''gshp_deep_cooling'',
          attrs = [(''bus0'', PyStr ''electricity''), (''bus1'', PyStr ''cooling''),
                   (''p_nom'', PyInt 100)]\<rparr>]\<rparr>"

text \<open>
  Backends: one where every call raises with the given message; one where the three named
  solvers are missing and the default solver reports an infeasible problem; one where
  gurobi is missing, copt reports an infeasible problem, glpk is missing and the default
  call raises; one where gurobi is missing and the call of copt is interrupted from the
  keyboard.
\<close>

definition failing_backends :: "string \<Rightarrow> string option \<Rightarrow> attempt" where
  "failing_backends msg s = Raises msg"

definition infeasible_default :: "string option \<Rightarrow> attempt" where
  "infeasible_default s =
     (case s of
        Some solver \<Rightarrow> Raises ''solver not available''
      | None \<Rightarrow> Returns (Tuple ''warning'' ''infeasible''))"

definition mixed_failures :: "string option \<Rightarrow> attempt" where
  "mixed_failures s =
     (case s of
        None \<Rightarrow> Raises ''no solver found''
      | Some solver \<Rightarrow>
          if solver = ''copt'' then Returns (Tuple ''warning'' ''infeasible'')
          else Raises ''solver not available'')"

definition interrupted_backends :: "string option \<Rightarrow> attempt" where
  "interrupted_backends s =
     (case s of
        None \<Rightarrow> Raises ''no solver found''
      | Some solver \<Rightarrow>
          if solver = ''gurobi'' then Raises ''solver not available''
          else Interrupts ''KeyboardInterrupt'')"

text \<open>
  The small configuration with a one-entry availability series (the horizon is 2), with
  a one-entry electricity demand, and without the heat demand.
\<close>

definition short_series_data :: pydict where
  "short_series_data = demo_data(''pv_pu'' \<mapsto> PyList [PyFloat (1 / 2)])"

definition short_load_data :: pydict where
  "short_load_data = demo_data(''elec_load'' \<mapsto> PyList [PyInt 50])"

definition no_heat_data :: pydict where
  "no_heat_data = demo_data(''heat_load'' := None)"

section \<open>Lemmas about construction\<close>

text \<open>A call of \<^verbatim>\<open>add\<close> that returns has appended its component and found every series fitting.\<close>

lemma add_Inr:
  assumes "add n x = Inr n'"
  shows "components n' = components n @ [x]" and "snapshots n' = snapshots n"
    and "list_all (\<lambda>kv. series_fits n (snd kv)) (attrs x)"
  using assms by (auto simp: add_def with_component_def split: if_splits)

lemma add_Inl: "add n x = Inl e \<Longrightarrow> e = ValueError"
  by (auto simp: add_def split: if_splits)

lemma and_then_Inr: "and_then r f = Inr y \<longleftrightarrow> (\<exists>x. r = Inr x \<and> f x = Inr y)"
  by (cases r) (simp_all add: and_then_def)

lemma and_then_Inl: "and_then r f = Inl e \<longleftrightarrow> r = Inl e \<or> (\<exists>x. r = Inr x \<and> f x = Inl e)"
  by (cases r) (simp_all add: and_then_def)

lemma series_fits_snapshots:
  "snapshots n' = snapshots n \<Longrightarrow> series_fits n' v = series_fits n v"
  by (cases v) (simp_all add: series_fits_def)

lemma series_fits_not_wrong_length:
  "series_fits n (dict_get d k PyNone) \<Longrightarrow> \<not> wrong_length (length (snapshots n)) d k"
  by (auto simp: series_fits_def dict_get_def wrong_length_def split: option.splits pyval.splits)

text \<open>What each statement of \<^verbatim>\<open>build_model\<close> has done when it returns.\<close>

lemma add_buses_Inr:
  assumes "add_buses n = Inr n'"
  shows "components n' = components n @
     [\<lparr>cls = Bus, cname = ''electricity'', attrs = [(''carrier'', PyStr ''AC'')]\<rparr>,
      \<lparr>cls = Bus, cname = ''heat'', attrs = [(''carrier'', PyStr ''heat'')]\<rparr>,
      \<lparr>cls = Bus, cname = ''cooling'', attrs = [(''carrier'', PyStr ''cooling'')]\<rparr>,
      \<lparr>cls = Bus, cname = ''hydrogen'', attrs = [(''carrier'', PyStr ''H2'')]\<rparr>]"
    and "snapshots n' = snapshots n"
proof -
  from assms obtain n1 n2 n3 where
    a: "add n \<lparr>cls = Bus, cname = ''electricity'', attrs = [(''carrier'', PyStr ''AC'')]\<rparr> = Inr n1"
    and b: "add n1 \<lparr>cls = Bus, cname = ''heat'', attrs = [(''carrier'', PyStr ''heat'')]\<rparr> = Inr n2"
    and c: "add n2 \<lparr>cls = Bus, cname = ''cooling'', attrs = [(''carrier'', PyStr ''cooling'')]\<rparr> = Inr n3"
    and e: "add n3 \<lparr>cls = Bus, cname = ''hydrogen'', attrs = [(''carrier'', PyStr ''H2'')]\<rparr> = Inr n'"
    unfolding add_buses_def and_then_Inr by blast
  show "components n' = components n @
     [\<lparr>cls = Bus, cname = ''electricity'', attrs = [(''carrier'', PyStr ''AC'')]\<rparr>,
      \<lparr>cls = Bus, cname = ''heat'', attrs = [(''carrier'', PyStr ''heat'')]\<rparr>,
      \<lparr>cls = Bus, cname = ''cooling'', attrs = [(''carrier'', PyStr ''cooling'')]\<rparr>,
      \<lparr>cls = Bus, cname = ''hydrogen'', attrs = [(''carrier'', PyStr ''H2'')]\<rparr>]"
    by (simp add: add_Inr(1) [OF a] add_Inr(1) [OF b] add_Inr(1) [OF c] add_Inr(1) [OF e])
  show "snapshots n' = snapshots n"
    by (simp add: add_Inr(2) [OF a] add_Inr(2) [OF b] add_Inr(2) [OF c] add_Inr(2) [OF e])
qed

lemma add_grid_Inr:
  assumes "add_grid d comps n = Inr n'"
  shows "components n' = components n @ (if selected comps ''grid'' then [grid_generator d] else [])"
    and "snapshots n' = snapshots n"
    and "selected comps ''grid'' \<longrightarrow> series_fits n (dict_get d ''grid_cost'' PyNone)"
proof -
  show "components n' = components n @ (if selected comps ''grid'' then [grid_generator d] else [])"
    using assms by (auto simp: add_grid_def dest: add_Inr(1) split: if_splits)
  show "snapshots n' = snapshots n"
    using assms by (auto simp: add_grid_def dest: add_Inr(2) split: if_splits)
  show "selected comps ''grid'' \<longrightarrow> series_fits n (dict_get d ''grid_cost'' PyNone)"
    using assms by (auto simp: add_grid_def grid_generator_def dest!: add_Inr(3) split: if_splits)
qed

lemma add_pv_Inr:
  assumes "add_pv d comps n = Inr n'"
  shows "components n' = components n @
           (if selected comps ''pv'' then [pv_generator d (dict_get d ''pv_pu'' PyNone)] else [])"
    and "snapshots n' = snapshots n"
    and "selected comps ''pv'' \<longrightarrow>
           d ''pv_pu'' \<noteq> None \<and> series_fits n (dict_get d ''pv_pu'' PyNone)"
proof -
  show "components n' = components n @
           (if selected comps ''pv'' then [pv_generator d (dict_get d ''pv_pu'' PyNone)] else [])"
    using assms
    by (auto simp: add_pv_def dict_item_def dict_get_def dest: add_Inr(1)
          split: if_splits option.splits)
  show "snapshots n' = snapshots n"
    using assms
    by (auto simp: add_pv_def dict_item_def dest: add_Inr(2) split: if_splits option.splits)
  show "selected comps ''pv'' \<longrightarrow>
           d ''pv_pu'' \<noteq> None \<and> series_fits n (dict_get d ''pv_pu'' PyNone)"
    using assms
    by (auto simp: add_pv_def dict_item_def dict_get_def pv_generator_def dest!: add_Inr(3)
          split: if_splits option.splits)
qed

lemma add_loads_Inr:
  assumes "add_loads d n = Inr n'"
  shows "components n' = components n @
     [\<lparr>cls = Load, cname = ''elec_load'',
       attrs = [(''bus'', PyStr ''electricity''), (''p_set'', dict_get d ''elec_load'' PyNone)]\<rparr>,
      \<lparr>cls = Load, cname = ''heat_load'',
       attrs = [(''bus'', PyStr ''heat''), (''p_set'', dict_get d ''heat_load'' PyNone)]\<rparr>,
      \<lparr>cls = Load, cname = ''cool_load'',
       attrs = [(''bus'', PyStr ''cooling''), (''p_set'', dict_get d ''cool_load'' PyNone)]\<rparr>] @
     (if dict_contains d ''h2_load'' then
        [\<lparr>cls = Load, cname = ''h2_load'',
          attrs = [(''bus'', PyStr ''hydrogen''), (''p_set'', dict_get d ''h2_load'' PyNone)]\<rparr>]
      else [])"
    and "snapshots n' = snapshots n"
    and "d ''elec_load'' \<noteq> None \<and> d ''heat_load'' \<noteq> None \<and> d ''cool_load'' \<noteq> None"
    and "series_fits n (dict_get d ''elec_load'' PyNone)
         \<and> series_fits n (dict_get d ''heat_load'' PyNone)
         \<and> series_fits n (dict_get d ''cool_load'' PyNone)
         \<and> (dict_contains d ''h2_load'' \<longrightarrow> series_fits n (dict_get d ''h2_load'' PyNone))"
proof -
  from assms obtain el where el: "d ''elec_load'' = Some el"
    and r1: "and_then (add n \<lparr>cls = Load, cname = ''elec_load'',
                      attrs = [(''bus'', PyStr ''electricity''), (''p_set'', el)]\<rparr>)
       (\<lambda>n1.
     (case dict_item d ''heat_load'' of
        Inl e \<Rightarrow> Inl e
      | Inr hl \<Rightarrow>
     and_then (add n1 \<lparr>cls = Load, cname = ''heat_load'',
                       attrs = [(''bus'', PyStr ''heat''), (''p_set'', hl)]\<rparr>)
       (\<lambda>n2.
     (case dict_item d ''cool_load'' of
        Inl e \<Rightarrow> Inl e
      | Inr cl \<Rightarrow>
     and_then (add n2 \<lparr>cls = Load, cname = ''cool_load'',
                       attrs = [(''bus'', PyStr ''cooling''), (''p_set'', cl)]\<rparr>)
       (\<lambda>n3.
     if dict_contains d ''h2_load'' then
       (case dict_item d ''h2_load'' of
          Inl e \<Rightarrow> Inl e
        | Inr h2 \<Rightarrow>
            add n3 \<lparr>cls = Load, cname = ''h2_load'',
                    attrs = [(''bus'', PyStr ''hydrogen''), (''p_set'', h2)]\<rparr>)
     else Inr n3))))) = Inr n'"
    unfolding add_loads_def by (cases "d ''elec_load''") (simp_all add: dict_item_def)
  from r1 obtain n1 where
    a1: "add n \<lparr>cls = Load, cname = ''elec_load'',
                    attrs = [(''bus'', PyStr ''electricity''), (''p_set'', el)]\<rparr> = Inr n1"
    and r2: "(case dict_item d ''heat_load'' of
        Inl e \<Rightarrow> Inl e
      | Inr hl \<Rightarrow>
     and_then (add n1 \<lparr>cls = Load, cname = ''heat_load'',
                       attrs = [(''bus'', PyStr ''heat''), (''p_set'', hl)]\<rparr>)
       (\<lambda>n2.
     (case dict_item d ''cool_load'' of
        Inl e \<Rightarrow> Inl e
      | Inr cl \<Rightarrow>
     and_then (add n2 \<lparr>cls = Load, cname = ''cool_load'',
                       attrs = [(''bus'', PyStr ''cooling''), (''p_set'', cl)]\<rparr>)
       (\<lambda>n3.
     if dict_contains d ''h2_load'' then
       (case dict_item d ''h2_load'' of
          Inl e \<Rightarrow> Inl e
        | Inr h2 \<Rightarrow>
            add n3 \<lparr>cls = Load, cname = ''h2_load'',
                    attrs = [(''bus'', PyStr ''hydrogen''), (''p_set'', h2)]\<rparr>)
     else Inr n3)))) = Inr n'"
    unfolding and_then_Inr by blast
  from r2 obtain hl where hl: "d ''heat_load'' = Some hl"
    and r3: "and_then (add n1 \<lparr>cls = Load, cname = ''heat_load'',
                       attrs = [(''bus'', PyStr ''heat''), (''p_set'', hl)]\<rparr>)
       (\<lambda>n2.
     (case dict_item d ''cool_load'' of
        Inl e \<Rightarrow> Inl e
      | Inr cl \<Rightarrow>
     and_then (add n2 \<lparr>cls = Load, cname = ''cool_load'',
                       attrs = [(''bus'', PyStr ''cooling''), (''p_set'', cl)]\<rparr>)
       (\<lambda>n3.
     if dict_contains d ''h2_load'' then
       (case dict_item d ''h2_load'' of
          Inl e \<Rightarrow> Inl e
        | Inr h2 \<Rightarrow>
            add n3 \<lparr>cls = Load, cname = ''h2_load'',
                    attrs = [(''bus'', PyStr ''hydrogen''), (''p_set'', h2)]\<rparr>)
     else Inr n3))) = Inr n'"
    by (cases "d ''heat_load''") (simp_all add: dict_item_def)
  from r3 obtain n2 where
    a2: "add n1 \<lparr>cls = Load, cname = ''heat_load'',
                     attrs = [(''bus'', PyStr ''heat''), (''p_set'', hl)]\<rparr> = Inr n2"
    and r4: "(case dict_item d ''cool_load'' of
        Inl e \<Rightarrow> Inl e
      | Inr cl \<Rightarrow>
     and_then (add n2 \<lparr>cls = Load, cname = ''cool_load'',
                       attrs = [(''bus'', PyStr ''cooling''), (''p_set'', cl)]\<rparr>)
       (\<lambda>n3.
     if dict_contains d ''h2_load'' then
       (case dict_item d ''h2_load'' of
          Inl e \<Rightarrow> Inl e
        | Inr h2 \<Rightarrow>
            add n3 \<lparr>cls = Load, cname = ''h2_load'',
                    attrs = [(''bus'', PyStr ''hydrogen''), (''p_set'', h2)]\<rparr>)
     else Inr n3)) = Inr n'"
    unfolding and_then_Inr by blast
  from r4 obtain cl where cl: "d ''cool_load'' = Some cl"
    and r5: "and_then (add n2 \<lparr>cls = Load, cname = ''cool_load'',
                       attrs = [(''bus'', PyStr ''cooling''), (''p_set'', cl)]\<rparr>)
       (\<lambda>n3.
     if dict_contains d ''h2_load'' then
       (case dict_item d ''h2_load'' of
          Inl e \<Rightarrow> Inl e
        | Inr h2 \<Rightarrow>
            add n3 \<lparr>cls = Load, cname = ''h2_load'',
                    attrs = [(''bus'', PyStr ''hydrogen''), (''p_set'', h2)]\<rparr>)
     else Inr n3) = Inr n'"
    by (cases "d ''cool_load''") (simp_all add: dict_item_def)
  from r5 obtain n3 where
    a3: "add n2 \<lparr>cls = Load, cname = ''cool_load'',
                     attrs = [(''bus'', PyStr ''cooling''), (''p_set'', cl)]\<rparr> = Inr n3"
    and h2: "(if dict_contains d ''h2_load'' then
               (case dict_item d ''h2_load'' of
                  Inl e \<Rightarrow> Inl e
                | Inr h2 \<Rightarrow>
                    add n3 \<lparr>cls = Load, cname = ''h2_load'',
                            attrs = [(''bus'', PyStr ''hydrogen''), (''p_set'', h2)]\<rparr>)
             else Inr n3) = Inr n'"
    unfolding and_then_Inr by blast
  note c1 = add_Inr [OF a1] and c2 = add_Inr [OF a2] and c3 = add_Inr [OF a3]
  have s3: "snapshots n3 = snapshots n"
    by (simp add: c1(2) c2(2) c3(2))
  have k3: "components n3 = components n @
     [\<lparr>cls = Load, cname = ''elec_load'',
       attrs = [(''bus'', PyStr ''electricity''), (''p_set'', dict_get d ''elec_load'' PyNone)]\<rparr>,
      \<lparr>cls = Load, cname = ''heat_load'',
       attrs = [(''bus'', PyStr ''heat''), (''p_set'', dict_get d ''heat_load'' PyNone)]\<rparr>,
      \<lparr>cls = Load, cname = ''cool_load'',
       attrs = [(''bus'', PyStr ''cooling''), (''p_set'', dict_get d ''cool_load'' PyNone)]\<rparr>]"
    by (simp add: c1(1) c2(1) c3(1) dict_get_def el hl cl)
  have f3: "series_fits n (dict_get d ''elec_load'' PyNone)
         \<and> series_fits n (dict_get d ''heat_load'' PyNone)
         \<and> series_fits n (dict_get d ''cool_load'' PyNone)"
    using c1(3) c2(3) c3(3)
      series_fits_snapshots [of n1 n hl, OF c1(2)] series_fits_snapshots [of n2 n cl]
    by (simp add: dict_get_def el hl cl c1(2) c2(2))
  show "d ''elec_load'' \<noteq> None \<and> d ''heat_load'' \<noteq> None \<and> d ''cool_load'' \<noteq> None"
    by (simp add: el hl cl)
  show "components n' = components n @
     [\<lparr>cls = Load, cname = ''elec_load'',
       attrs = [(''bus'', PyStr ''electricity''), (''p_set'', dict_get d ''elec_load'' PyNone)]\<rparr>,
      \<lparr>cls = Load, cname = ''heat_load'',
       attrs = [(''bus'', PyStr ''heat''), (''p_set'', dict_get d ''heat_load'' PyNone)]\<rparr>,
      \<lparr>cls = Load, cname = ''cool_load'',
       attrs = [(''bus'', PyStr ''cooling''), (''p_set'', dict_get d ''cool_load'' PyNone)]\<rparr>] @
     (if dict_contains d ''h2_load'' then
        [\<lparr>cls = Load, cname = ''h2_load'',
          attrs = [(''bus'', PyStr ''hydrogen''), (''p_set'', dict_get d ''h2_load'' PyNone)]\<rparr>]
      else [])"
  proof (cases "dict_contains d ''h2_load''")
    case True
    with h2 obtain v where v: "d ''h2_load'' = Some v"
      and a4: "add n3 \<lparr>cls = Load, cname = ''h2_load'',
                       attrs = [(''bus'', PyStr ''hydrogen''), (''p_set'', v)]\<rparr> = Inr n'"
      by (auto simp: dict_item_def split: option.splits)
    show ?thesis
      by (simp add: True add_Inr(1) [OF a4] k3 dict_get_def v)
  next
    case False
    with h2 have "n' = n3" by simp
    then show ?thesis by (simp add: False k3)
  qed
  show "snapshots n' = snapshots n"
  proof (cases "dict_contains d ''h2_load''")
    case True
    with h2 obtain v where
      a4: "add n3 \<lparr>cls = Load, cname = ''h2_load'',
                       attrs = [(''bus'', PyStr ''hydrogen''), (''p_set'', v)]\<rparr> = Inr n'"
      by (auto simp: dict_item_def split: option.splits)
    show ?thesis
      by (simp add: add_Inr(2) [OF a4] s3)
  next
    case False
    with h2 have "n' = n3" by simp
    then show ?thesis by (simp add: s3)
  qed
  show "series_fits n (dict_get d ''elec_load'' PyNone)
         \<and> series_fits n (dict_get d ''heat_load'' PyNone)
         \<and> series_fits n (dict_get d ''cool_load'' PyNone)
         \<and> (dict_contains d ''h2_load'' \<longrightarrow> series_fits n (dict_get d ''h2_load'' PyNone))"
  proof (cases "dict_contains d ''h2_load''")
    case True
    with h2 obtain v where v: "d ''h2_load'' = Some v"
      and a4: "add n3 \<lparr>cls = Load, cname = ''h2_load'',
                       attrs = [(''bus'', PyStr ''hydrogen''), (''p_set'', v)]\<rparr> = Inr n'"
      by (auto simp: dict_item_def split: option.splits)
    from add_Inr(3) [OF a4] series_fits_snapshots [OF s3, of v]
    have "series_fits n (dict_get d ''h2_load'' PyNone)"
      by (simp add: dict_get_def v)
    with f3 show ?thesis by simp
  next
    case False
    with f3 show ?thesis by simp
  qed
qed

lemma add_electric_boiler_Inr:
  assumes "add_electric_boiler d devs n = Inr n'"
  shows "components n' = components n @
           (if ''electric_boiler'' \<in> set devs then [electric_boiler_link d] else [])"
    and "snapshots n' = snapshots n"
  using assms by (auto simp: add_electric_boiler_def dest: add_Inr(1,2) split: if_splits)

lemma add_heat_pump_Inr:
  assumes "add_heat_pump d devs (k, p) n = Inr n'"
  shows "components n' = components n @
           (if k \<in> set devs then [heating_link d p, cooling_link d p] else [])"
    and "snapshots n' = snapshots n"
proof -
  show "components n' = components n @
           (if k \<in> set devs then [heating_link d p, cooling_link d p] else [])"
  proof (cases "k \<in> set devs")
    case True
    with assms obtain n1 where a: "add n (heating_link d p) = Inr n1"
      and b: "add n1 (cooling_link d p) = Inr n'"
      by (auto simp: add_heat_pump_def and_then_Inr)
    show ?thesis
      by (simp add: True add_Inr(1) [OF a] add_Inr(1) [OF b])
  next
    case False
    with assms show ?thesis by (simp add: add_heat_pump_def)
  qed
  show "snapshots n' = snapshots n"
  proof (cases "k \<in> set devs")
    case True
    with assms obtain n1 where a: "add n (heating_link d p) = Inr n1"
      and b: "add n1 (cooling_link d p) = Inr n'"
      by (auto simp: add_heat_pump_def and_then_Inr)
    show ?thesis
      by (simp add: add_Inr(2) [OF a] add_Inr(2) [OF b])
  next
    case False
    with assms show ?thesis by (simp add: add_heat_pump_def)
  qed
qed

lemma add_heat_pumps_Inr:
  assumes "add_heat_pumps d devs n = Inr n'"
  shows "components n' = components n @
           (if ''ashp'' \<in> set devs then [heating_link d ''ashp'', cooling_link d ''ashp''] else []) @
           (if ''gshp_shallow'' \<in> set devs
            then [heating_link d ''gshp_shallow'', cooling_link d ''gshp_shallow''] else []) @
           (if ''gshp_deep'' \<in> set devs
            then [heating_link d ''gshp_deep'', cooling_link d ''gshp_deep''] else [])"
    and "snapshots n' = snapshots n"
proof -
  from assms obtain n1 n2 where
    a: "add_heat_pump d devs (''ashp'', ''ashp'') n = Inr n1"
    and b: "add_heat_pump d devs (''gshp_shallow'', ''gshp_shallow'') n1 = Inr n2"
    and c: "add_heat_pump d devs (''gshp_deep'', ''gshp_deep'') n2 = Inr n'"
    unfolding add_heat_pumps_def hp_types_def
    by (auto split: sum.splits)
  show "components n' = components n @
           (if ''ashp'' \<in> set devs then [heating_link d ''ashp'', cooling_link d ''ashp''] else []) @
           (if ''gshp_shallow'' \<in> set devs
            then [heating_link d ''gshp_shallow'', cooling_link d ''gshp_shallow''] else []) @
           (if ''gshp_deep'' \<in> set devs
            then [heating_link d ''gshp_deep'', cooling_link d ''gshp_deep''] else [])"
    by (simp only: add_heat_pump_Inr(1) [OF a] add_heat_pump_Inr(1) [OF b]
          add_heat_pump_Inr(1) [OF c] append_assoc)
  show "snapshots n' = snapshots n"
    by (simp only: add_heat_pump_Inr(2) [OF a] add_heat_pump_Inr(2) [OF b]
          add_heat_pump_Inr(2) [OF c])
qed

lemma add_electrolyzer_Inr:
  assumes "add_electrolyzer d devs n = Inr n'"
  shows "components n' = components n @
           (if ''electrolyzer'' \<in> set devs then [electrolyzer_link d] else [])"
    and "snapshots n' = snapshots n"
  using assms by (auto simp: add_electrolyzer_def dest: add_Inr(1,2) split: if_splits)

lemma add_fuel_cell_Inr:
  assumes "add_fuel_cell d devs n = Inr n'"
  shows "components n' = components n @
           (if ''fuel_cell'' \<in> set devs then [fuel_cell_link d] else [])"
    and "snapshots n' = snapshots n"
  using assms by (auto simp: add_fuel_cell_def dest: add_Inr(1,2) split: if_splits)

lemma add_battery_Inr:
  assumes "add_battery d devs n = Inr n'"
  shows "components n' = components n @
           (if ''battery'' \<in> set devs then [battery_unit d] else [])"
    and "snapshots n' = snapshots n"
  using assms by (auto simp: add_battery_def dest: add_Inr(1,2) split: if_splits)

lemma add_h2_storage_Inr:
  assumes "add_h2_storage d devs n = Inr n'"
  shows "components n' = components n @
           (if ''h2_storage'' \<in> set devs then [h2_storage_unit d] else [])"
    and "snapshots n' = snapshots n"
  using assms by (auto simp: add_h2_storage_def dest: add_Inr(1,2) split: if_splits)

text \<open>A completed \<^verbatim>\<open>build_model\<close> has passed every statement.\<close>

lemma build_model_Inr:
  assumes "build_model self comps = Inr self'"
  obtains n1 n2 n3 n4 n5 n6 n7 n8 n9 n10 where
    "add_buses (model_n self) = Inr n1"
    "add_grid (model_data self) comps n1 = Inr n2"
    "add_pv (model_data self) comps n2 = Inr n3"
    "add_loads (model_data self) n3 = Inr n4"
    "add_electric_boiler (model_data self) (all_devices_of comps) n4 = Inr n5"
    "add_heat_pumps (model_data self) (all_devices_of comps) n5 = Inr n6"
    "add_electrolyzer (model_data self) (all_devices_of comps) n6 = Inr n7"
    "add_fuel_cell (model_data self) (all_devices_of comps) n7 = Inr n8"
    "add_battery (model_data self) (all_devices_of comps) n8 = Inr n9"
    "add_h2_storage (model_data self) (all_devices_of comps) n9 = Inr n10"
    "self' = self\<lparr>model_n := n10\<rparr>"
  using assms unfolding build_model_def Let_def and_then_Inr by blast

lemma IESModel_init_Inr:
  "IESModel_init d = Inr s0 \<Longrightarrow>
     model_data s0 = d \<and> components (model_n s0) = [] \<and> snapshots (model_n s0) \<noteq> []"
  by (auto simp: IESModel_init_def Let_def empty_network_def set_snapshots_def
        split: sum.splits if_splits)

text \<open>The component list after a completed \<^verbatim>\<open>build_model\<close>, in the order of creation.\<close>

lemma build_model_components:
  assumes "build_model self comps = Inr self'"
  shows "components (model_n self') =
     components (model_n self) @
     [\<lparr>cls = Bus, cname = ''electricity'', attrs = [(''carrier'', PyStr ''AC'')]\<rparr>,
      \<lparr>cls = Bus, cname = ''heat'', attrs = [(''carrier'', PyStr ''heat'')]\<rparr>,
      \<lparr>cls = Bus, cname = ''cooling'', attrs = [(''carrier'', PyStr ''cooling'')]\<rparr>,
      \<lparr>cls = Bus, cname = ''hydrogen'', attrs = [(''carrier'', PyStr ''H2'')]\<rparr>] @
     (if selected comps ''grid'' then [grid_generator (model_data self)] else []) @
     (if selected comps ''pv''
      then [pv_generator (model_data self) (dict_get (model_data self) ''pv_pu'' PyNone)] else []) @
     [\<lparr>cls = Load, cname = ''elec_load'',
       attrs = [(''bus'', PyStr ''electricity''), (''p_set'', dict_get (model_data self) ''elec_load'' PyNone)]\<rparr>,
      \<lparr>cls = Load, cname = ''heat_load'',
       attrs = [(''bus'', PyStr ''heat''), (''p_set'', dict_get (model_data self) ''heat_load'' PyNone)]\<rparr>,
      \<lparr>cls = Load, cname = ''cool_load'',
       attrs = [(''bus'', PyStr ''cooling''), (''p_set'', dict_get (model_data self) ''cool_load'' PyNone)]\<rparr>] @
     (if dict_contains (model_data self) ''h2_load'' then
        [\<lparr>cls = Load, cname = ''h2_load'',
          attrs = [(''bus'', PyStr ''hydrogen''), (''p_set'', dict_get (model_data self) ''h2_load'' PyNone)]\<rparr>]
      else []) @
     (if ''electric_boiler'' \<in> set (all_devices_of comps)
      then [electric_boiler_link (model_data self)] else []) @
     (if ''ashp'' \<in> set (all_devices_of comps)
      then [heating_link (model_data self) ''ashp'', cooling_link (model_data self) ''ashp''] else []) @
     (if ''gshp_shallow'' \<in> set (all_devices_of comps)
      then [heating_link (model_data self) ''gshp_shallow'',
            cooling_link (model_data self) ''gshp_shallow''] else []) @
     (if ''gshp_deep'' \<in> set (all_devices_of comps)
      then [heating_link (model_data self) ''gshp_deep'',
            cooling_link (model_data self) ''gshp_deep''] else []) @
     (if ''electrolyzer'' \<in> set (all_devices_of comps)
      then [electrolyzer_link (model_data self)] else []) @
     (if ''fuel_cell'' \<in> set (all_devices_of comps)
      then [fuel_cell_link (model_data self)] else []) @
     (if ''battery'' \<in> set (all_devices_of comps)
      then [battery_unit (model_data self)] else []) @
     (if ''h2_storage'' \<in> set (all_devices_of comps)
      then [h2_storage_unit (model_data self)] else [])"
proof -
  from assms obtain n1 n2 n3 n4 n5 n6 n7 n8 n9 n10 where
    s: "add_buses (model_n self) = Inr n1"
    "add_grid (model_data self) comps n1 = Inr n2"
    "add_pv (model_data self) comps n2 = Inr n3"
    "add_loads (model_data self) n3 = Inr n4"
    "add_electric_boiler (model_data self) (all_devices_of comps) n4 = Inr n5"
    "add_heat_pumps (model_data self) (all_devices_of comps) n5 = Inr n6"
    "add_electrolyzer (model_data self) (all_devices_of comps) n6 = Inr n7"
    "add_fuel_cell (model_data self) (all_devices_of comps) n7 = Inr n8"
    "add_battery (model_data self) (all_devices_of comps) n8 = Inr n9"
    "add_h2_storage (model_data self) (all_devices_of comps) n9 = Inr n10"
    and r: "self' = self\<lparr>model_n := n10\<rparr>"
    by (rule build_model_Inr)
  have mn: "model_n self' = n10"
    using r by simp
  show ?thesis
    unfolding mn
    by (simp only: add_h2_storage_Inr(1) [OF s(10)] add_battery_Inr(1) [OF s(9)]
          add_fuel_cell_Inr(1) [OF s(8)] add_electrolyzer_Inr(1) [OF s(7)]
          add_heat_pumps_Inr(1) [OF s(6)] add_electric_boiler_Inr(1) [OF s(5)]
          add_loads_Inr(1) [OF s(4)] add_pv_Inr(1) [OF s(3)] add_grid_Inr(1) [OF s(2)]
          add_buses_Inr(1) [OF s(1)] append_assoc)
qed

text \<open>The snapshots are those of the constructor.\<close>

lemma build_model_snapshots:
  assumes "build_model self comps = Inr self'"
  shows "snapshots (model_n self') = snapshots (model_n self)"
proof -
  from assms obtain n1 n2 n3 n4 n5 n6 n7 n8 n9 n10 where
    s: "add_buses (model_n self) = Inr n1"
    "add_grid (model_data self) comps n1 = Inr n2"
    "add_pv (model_data self) comps n2 = Inr n3"
    "add_loads (model_data self) n3 = Inr n4"
    "add_electric_boiler (model_data self) (all_devices_of comps) n4 = Inr n5"
    "add_heat_pumps (model_data self) (all_devices_of comps) n5 = Inr n6"
    "add_electrolyzer (model_data self) (all_devices_of comps) n6 = Inr n7"
    "add_fuel_cell (model_data self) (all_devices_of comps) n7 = Inr n8"
    "add_battery (model_data self) (all_devices_of comps) n8 = Inr n9"
    "add_h2_storage (model_data self) (all_devices_of comps) n9 = Inr n10"
    and r: "self' = self\<lparr>model_n := n10\<rparr>"
    by (rule build_model_Inr)
  have mn: "model_n self' = n10"
    using r by simp
  show ?thesis
    unfolding mn
    by (simp only: add_h2_storage_Inr(2) [OF s(10)] add_battery_Inr(2) [OF s(9)]
          add_fuel_cell_Inr(2) [OF s(8)] add_electrolyzer_Inr(2) [OF s(7)]
          add_heat_pumps_Inr(2) [OF s(6)] add_electric_boiler_Inr(2) [OF s(5)]
          add_loads_Inr(2) [OF s(4)] add_pv_Inr(2) [OF s(3)] add_grid_Inr(2) [OF s(2)]
          add_buses_Inr(2) [OF s(1)])
qed

text \<open>The components of each class, on a model whose network was empty before the call.\<close>

lemmas built_simps =
  grid_generator_def pv_generator_def electric_boiler_link_def heating_link_def cooling_link_def
  electrolyzer_link_def fuel_cell_link_def battery_unit_def h2_storage_unit_def

lemma filter_if:
  "filter P (if b then xs else ys) = (if b then filter P xs else filter P ys)"
  by (cases b) simp_all

lemma built_class_Bus:
  assumes "build_model self comps = Inr self'" and "components (model_n self) = []"
  shows "filter (\<lambda>c. cls c = Bus) (components (model_n self')) =
     [\<lparr>cls = Bus, cname = ''electricity'', attrs = [(''carrier'', PyStr ''AC'')]\<rparr>,
      \<lparr>cls = Bus, cname = ''heat'', attrs = [(''carrier'', PyStr ''heat'')]\<rparr>,
      \<lparr>cls = Bus, cname = ''cooling'', attrs = [(''carrier'', PyStr ''cooling'')]\<rparr>,
      \<lparr>cls = Bus, cname = ''hydrogen'', attrs = [(''carrier'', PyStr ''H2'')]\<rparr>]"
  unfolding build_model_components [OF assms(1)] assms(2)
  by (simp split del: if_split cong del: if_weak_cong add: built_simps filter_if)

lemma built_class_Load:
  assumes "build_model self comps = Inr self'" and "components (model_n self) = []"
  shows "filter (\<lambda>c. cls c = Load) (components (model_n self')) =
     [\<lparr>cls = Load, cname = ''elec_load'',
       attrs = [(''bus'', PyStr ''electricity''), (''p_set'', dict_get (model_data self) ''elec_load'' PyNone)]\<rparr>,
      \<lparr>cls = Load, cname = ''heat_load'',
       attrs = [(''bus'', PyStr ''heat''), (''p_set'', dict_get (model_data self) ''heat_load'' PyNone)]\<rparr>,
      \<lparr>cls = Load, cname = ''cool_load'',
       attrs = [(''bus'', PyStr ''cooling''), (''p_set'', dict_get (model_data self) ''cool_load'' PyNone)]\<rparr>] @
     (if dict_contains (model_data self) ''h2_load'' then
        [\<lparr>cls = Load, cname = ''h2_load'',
          attrs = [(''bus'', PyStr ''hydrogen''), (''p_set'', dict_get (model_data self) ''h2_load'' PyNone)]\<rparr>]
      else [])"
  unfolding build_model_components [OF assms(1)] assms(2)
  by (simp split del: if_split cong del: if_weak_cong add: built_simps filter_if)

lemma index_of_filter: "index_of c n = map cname (filter (\<lambda>x. cls x = c) (components n))"
  by (simp add: index_of_def)

lemma built_class_Generator:
  assumes "build_model self comps = Inr self'" and "components (model_n self) = []"
  shows "filter (\<lambda>c. cls c = Generator) (components (model_n self')) =
     (if selected comps ''grid'' then [grid_generator (model_data self)] else []) @
     (if selected comps ''pv''
      then [pv_generator (model_data self) (dict_get (model_data self) ''pv_pu'' PyNone)] else [])"
  unfolding build_model_components [OF assms(1)] assms(2)
  by (simp split del: if_split cong del: if_weak_cong add: built_simps filter_if)

lemma built_class_Link:
  assumes "build_model self comps = Inr self'" and "components (model_n self) = []"
  shows "filter (\<lambda>c. cls c = Link) (components (model_n self')) =
     (if ''electric_boiler'' \<in> set (all_devices_of comps)
      then [electric_boiler_link (model_data self)] else []) @
     (if ''ashp'' \<in> set (all_devices_of comps)
      then [heating_link (model_data self) ''ashp'', cooling_link (model_data self) ''ashp''] else []) @
     (if ''gshp_shallow'' \<in> set (all_devices_of comps)
      then [heating_link (model_data self) ''gshp_shallow'',
            cooling_link (model_data self) ''gshp_shallow''] else []) @
     (if ''gshp_deep'' \<in> set (all_devices_of comps)
      then [heating_link (model_data self) ''gshp_deep'',
            cooling_link (model_data self) ''gshp_deep''] else []) @
     (if ''electrolyzer'' \<in> set (all_devices_of comps)
      then [electrolyzer_link (model_data self)] else []) @
     (if ''fuel_cell'' \<in> set (all_devices_of comps)
      then [fuel_cell_link (model_data self)] else [])"
  unfolding build_model_components [OF assms(1)] assms(2)
  by (simp split del: if_split cong del: if_weak_cong add: built_simps filter_if)

lemma built_class_StorageUnit:
  assumes "build_model self comps = Inr self'" and "components (model_n self) = []"
  shows "filter (\<lambda>c. cls c = StorageUnit) (components (model_n self')) =
     (if ''battery'' \<in> set (all_devices_of comps) then [battery_unit (model_data self)] else []) @
     (if ''h2_storage'' \<in> set (all_devices_of comps)
      then [h2_storage_unit (model_data self)] else [])"
  unfolding build_model_components [OF assms(1)] assms(2)
  by (simp split del: if_split cong del: if_weak_cong add: built_simps filter_if)

text \<open>The equations that evaluate \<^verbatim>\<open>build_model\<close> on a concrete configuration.\<close>

lemmas build_eval =
  build_model_def and_then_def add_buses_def add_grid_def add_pv_def add_loads_def
  add_electric_boiler_def add_heat_pumps_def add_heat_pump_def hp_types_def add_electrolyzer_def
  add_fuel_cell_def add_battery_def add_h2_storage_def add_def with_component_def series_fits_def
  grid_generator_def pv_generator_def electric_boiler_link_def heating_link_def cooling_link_def
  electrolyzer_link_def fuel_cell_link_def battery_unit_def h2_storage_unit_def
  selected_def all_devices_of_def dict_get_def dict_item_def dict_contains_def Let_def

text \<open>The small configuration initialises, and builds under the selections used below.\<close>

lemma IESModel_init_demo: "IESModel_init demo_data = Inr demo_model"
  by (simp add: IESModel_init_def demo_data_def demo_model_def dict_get_def Let_def
        empty_network_def set_snapshots_def upto.simps)

lemma build_model_demo_default:
  "build_model demo_model None = Inr (projr (build_model demo_model None))"
proof -
  have "\<not> isl (build_model demo_model None)"
    by (simp add: build_eval demo_model_def demo_data_def)
  then show ?thesis by simp
qed

lemma build_model_demo_grid:
  "build_model demo_model (Some [''grid'']) = Inr (projr (build_model demo_model (Some [''grid''])))"
proof -
  have "\<not> isl (build_model demo_model (Some [''grid'']))"
    by (simp add: build_eval demo_model_def demo_data_def)
  then show ?thesis by simp
qed

lemma build_model_demo_fuel_cell:
  "build_model demo_model (Some [''fuel_cell'']) =
     Inr (projr (build_model demo_model (Some [''fuel_cell''])))"
proof -
  have "\<not> isl (build_model demo_model (Some [''fuel_cell'']))"
    by (simp add: build_eval demo_model_def demo_data_def)
  then show ?thesis by simp
qed

text \<open>The links of a built network, and the heat-pump families found among their names.\<close>

lemma filter_conj: "filter (\<lambda>c. P c \<and> Q c) xs = filter Q (filter P xs)"
  by (induction xs) auto

lemma built_links:
  assumes "IESModel_init d = Inr s0" and "build_model s0 comps = Inr s1"
  shows "filter (\<lambda>c. cls c = Link) (components (model_n s1)) =
     (if ''electric_boiler'' \<in> set (all_devices_of comps) then [electric_boiler_link d] else []) @
     (if ''ashp'' \<in> set (all_devices_of comps)
      then [heating_link d ''ashp'', cooling_link d ''ashp''] else []) @
     (if ''gshp_shallow'' \<in> set (all_devices_of comps)
      then [heating_link d ''gshp_shallow'', cooling_link d ''gshp_shallow''] else []) @
     (if ''gshp_deep'' \<in> set (all_devices_of comps)
      then [heating_link d ''gshp_deep'', cooling_link d ''gshp_deep''] else []) @
     (if ''electrolyzer'' \<in> set (all_devices_of comps) then [electrolyzer_link d] else []) @
     (if ''fuel_cell'' \<in> set (all_devices_of comps) then [fuel_cell_link d] else [])"
proof -
  from IESModel_init_Inr [OF assms(1)] have d: "model_data s0 = d" and e: "components (model_n s0) = []"
    by simp_all
  show ?thesis
    unfolding built_class_Link [OF assms(2) e] d by (rule refl)
qed

lemma map_if: "map f (if b then xs else ys) = (if b then map f xs else map f ys)"
  by (cases b) simp_all

lemma mem_set_if: "x \<in> set (if b then xs else []) \<longleftrightarrow> b \<and> x \<in> set xs"
  by (cases b) simp_all

lemma built_link_names:
  assumes "IESModel_init d = Inr s0" and "build_model s0 comps = Inr s1"
  shows "index_of Link (model_n s1) =
     (if ''electric_boiler'' \<in> set (all_devices_of comps) then [''electric_boiler''] else []) @
     (if ''ashp'' \<in> set (all_devices_of comps) then [''ashp_heating'', ''ashp_cooling''] else []) @
     (if ''gshp_shallow'' \<in> set (all_devices_of comps)
      then [''gshp_shallow_heating'', ''gshp_shallow_cooling''] else []) @
     (if ''gshp_deep'' \<in> set (all_devices_of comps)
      then [''gshp_deep_heating'', ''gshp_deep_cooling''] else []) @
     (if ''electrolyzer'' \<in> set (all_devices_of comps) then [''electrolyzer''] else []) @
     (if ''fuel_cell'' \<in> set (all_devices_of comps) then [''fuel_cell''] else [])"
  unfolding index_of_filter built_links [OF assms]
  by (simp split del: if_split cong del: if_weak_cong add: built_simps map_if)

lemma built_family_present:
  assumes "IESModel_init d = Inr s0" and "build_model s0 comps = Inr s1"
    and "p \<in> set hp_prefixes"
  shows "family_present (model_n s1) p \<longleftrightarrow> p \<in> set (all_devices_of comps)"
proof -
  from assms(3) consider "p = ''ashp''" | "p = ''gshp_shallow''" | "p = ''gshp_deep''"
    by (auto simp: hp_prefixes_def)
  then show ?thesis
  proof cases
    case 1
    show ?thesis
      unfolding family_present_def built_link_names [OF assms(1,2)] 1
      by (simp split del: if_split add: mem_set_if)
  next
    case 2
    show ?thesis
      unfolding family_present_def built_link_names [OF assms(1,2)] 2
      by (simp split del: if_split add: mem_set_if)
  next
    case 3
    show ?thesis
      unfolding family_present_def built_link_names [OF assms(1,2)] 3
      by (simp split del: if_split add: mem_set_if)
  qed
qed

text \<open>Each component that \<^verbatim>\<open>build_model\<close> creates satisfies \<open>capacity_fixed\<close>.\<close>

lemma ball_components_if:
  "(b \<Longrightarrow> \<forall>c \<in> set xs. P c) \<Longrightarrow> \<forall>c \<in> set (if b then xs else []). P c"
  by (cases b) simp_all

lemma capacity_fixed_generators:
  "capacity_fixed d (grid_generator d)" "capacity_fixed d (pv_generator d pu)"
  by (simp_all add: built_simps capacity_fixed_def p_nom_parameter_def)

lemma capacity_fixed_converters:
  "capacity_fixed d (electric_boiler_link d)" "capacity_fixed d (electrolyzer_link d)"
  "capacity_fixed d (fuel_cell_link d)"
  by (simp_all add: built_simps capacity_fixed_def p_nom_parameter_def)

lemma capacity_fixed_heat_pumps:
  "capacity_fixed d (heating_link d ''ashp'')" "capacity_fixed d (cooling_link d ''ashp'')"
  "capacity_fixed d (heating_link d ''gshp_shallow'')"
  "capacity_fixed d (cooling_link d ''gshp_shallow'')"
  "capacity_fixed d (heating_link d ''gshp_deep'')" "capacity_fixed d (cooling_link d ''gshp_deep'')"
  by (simp_all add: built_simps capacity_fixed_def p_nom_parameter_def)

lemma capacity_fixed_storage:
  "capacity_fixed d (battery_unit d)" "capacity_fixed d (h2_storage_unit d)"
  by (simp_all add: built_simps capacity_fixed_def p_nom_parameter_def)

lemma capacity_fixed_buses_loads:
  "capacity_fixed d \<lparr>cls = Bus, cname = ''electricity'', attrs = [(''carrier'', v)]\<rparr>"
  "capacity_fixed d \<lparr>cls = Bus, cname = ''heat'', attrs = [(''carrier'', v)]\<rparr>"
  "capacity_fixed d \<lparr>cls = Bus, cname = ''cooling'', attrs = [(''carrier'', v)]\<rparr>"
  "capacity_fixed d \<lparr>cls = Bus, cname = ''hydrogen'', attrs = [(''carrier'', v)]\<rparr>"
  "capacity_fixed d \<lparr>cls = Load, cname = ''elec_load'', attrs = [(''bus'', b), (''p_set'', v)]\<rparr>"
  "capacity_fixed d \<lparr>cls = Load, cname = ''heat_load'', attrs = [(''bus'', b), (''p_set'', v)]\<rparr>"
  "capacity_fixed d \<lparr>cls = Load, cname = ''cool_load'', attrs = [(''bus'', b), (''p_set'', v)]\<rparr>"
  "capacity_fixed d \<lparr>cls = Load, cname = ''h2_load'', attrs = [(''bus'', b), (''p_set'', v)]\<rparr>"
  by (simp_all add: capacity_fixed_def p_nom_parameter_def)


text \<open>
  What a completed \<^verbatim>\<open>build_model\<close> implies about the configuration: no series read
  without a default is missing, and every series handed to the network has the length of
  the horizon.
\<close>

lemma build_model_Inr_conditions:
  assumes "build_model self comps = Inr self'"
  shows "\<not> required_series_missing (model_data self) comps"
    and "\<forall>k \<in> set (series_read (model_data self) comps).
           \<not> wrong_length (length (snapshots (model_n self))) (model_data self) k"
proof -
  let ?d = "model_data self" and ?n = "model_n self"
  from assms obtain n1 n2 n3 n4 n5 n6 n7 n8 n9 n10 where
    s: "add_buses ?n = Inr n1" "add_grid ?d comps n1 = Inr n2" "add_pv ?d comps n2 = Inr n3"
    "add_loads ?d n3 = Inr n4"
    by (rule build_model_Inr)
  have s1: "snapshots n1 = snapshots ?n"
    by (rule add_buses_Inr(2) [OF s(1)])
  have s2: "snapshots n2 = snapshots ?n"
    by (simp add: add_grid_Inr(2) [OF s(2)] s1)
  have s3: "snapshots n3 = snapshots ?n"
    by (simp add: add_pv_Inr(2) [OF s(3)] s2)
  have g: "selected comps ''grid'' \<longrightarrow> \<not> wrong_length (length (snapshots ?n)) ?d ''grid_cost''"
    using add_grid_Inr(3) [OF s(2)] series_fits_not_wrong_length [of n1 ?d "''grid_cost''"]
    by (simp add: s1)
  have pv: "selected comps ''pv'' \<longrightarrow>
              ?d ''pv_pu'' \<noteq> None \<and> \<not> wrong_length (length (snapshots ?n)) ?d ''pv_pu''"
    using add_pv_Inr(3) [OF s(3)] series_fits_not_wrong_length [of n2 ?d "''pv_pu''"]
    by (simp add: s2)
  have present: "?d ''elec_load'' \<noteq> None \<and> ?d ''heat_load'' \<noteq> None \<and> ?d ''cool_load'' \<noteq> None"
    by (rule add_loads_Inr(3) [OF s(4)])
  have lo: "\<not> wrong_length (length (snapshots ?n)) ?d ''elec_load''
      \<and> \<not> wrong_length (length (snapshots ?n)) ?d ''heat_load''
      \<and> \<not> wrong_length (length (snapshots ?n)) ?d ''cool_load''
      \<and> (dict_contains ?d ''h2_load'' \<longrightarrow> \<not> wrong_length (length (snapshots ?n)) ?d ''h2_load'')"
    using add_loads_Inr(4) [OF s(4)]
      series_fits_not_wrong_length [of n3 ?d "''elec_load''"]
      series_fits_not_wrong_length [of n3 ?d "''heat_load''"]
      series_fits_not_wrong_length [of n3 ?d "''cool_load''"]
      series_fits_not_wrong_length [of n3 ?d "''h2_load''"]
    by (simp add: s3)
  show "\<not> required_series_missing ?d comps"
    using pv present by (simp add: required_series_missing_def)
  show "\<forall>k \<in> set (series_read ?d comps). \<not> wrong_length (length (snapshots ?n)) ?d k"
    using g pv lo by (auto simp: series_read_def split: if_splits)
qed

text \<open>The exceptions of \<^verbatim>\<open>build_model\<close> are KeyError and ValueError.\<close>

lemma add_buses_Inl: "add_buses n = Inl e \<Longrightarrow> e = ValueError"
  by (auto simp: add_buses_def and_then_Inl dest: add_Inl)

lemma add_grid_Inl: "add_grid d comps n = Inl e \<Longrightarrow> e = ValueError"
  by (auto simp: add_grid_def dest: add_Inl split: if_splits)

lemma add_pv_Inl: "add_pv d comps n = Inl e \<Longrightarrow> e = ValueError \<or> (\<exists>k. e = KeyError k)"
  by (auto simp: add_pv_def dict_item_def dest: add_Inl split: if_splits option.splits)

lemma add_loads_Inl: "add_loads d n = Inl e \<Longrightarrow> e = ValueError \<or> (\<exists>k. e = KeyError k)"
  by (auto simp: add_loads_def dict_item_def and_then_Inl dest: add_Inl
        split: if_splits option.splits)

lemma add_electric_boiler_Inl: "add_electric_boiler d devs n = Inl e \<Longrightarrow> e = ValueError"
  by (auto simp: add_electric_boiler_def dest: add_Inl split: if_splits)

lemma add_heat_pump_Inl: "add_heat_pump d devs kp n = Inl e \<Longrightarrow> e = ValueError"
  by (cases kp) (auto simp: add_heat_pump_def and_then_Inl dest: add_Inl split: if_splits)

lemma for_each_add_heat_pump_Inl:
  "for_each (add_heat_pump d devs) kps n = Inl e \<Longrightarrow> e = ValueError"
  by (induction kps arbitrary: n) (auto dest: add_heat_pump_Inl split: sum.splits)

lemma add_heat_pumps_Inl: "add_heat_pumps d devs n = Inl e \<Longrightarrow> e = ValueError"
  unfolding add_heat_pumps_def by (rule for_each_add_heat_pump_Inl)

lemma add_electrolyzer_Inl: "add_electrolyzer d devs n = Inl e \<Longrightarrow> e = ValueError"
  by (auto simp: add_electrolyzer_def dest: add_Inl split: if_splits)

lemma add_fuel_cell_Inl: "add_fuel_cell d devs n = Inl e \<Longrightarrow> e = ValueError"
  by (auto simp: add_fuel_cell_def dest: add_Inl split: if_splits)

lemma add_battery_Inl: "add_battery d devs n = Inl e \<Longrightarrow> e = ValueError"
  by (auto simp: add_battery_def dest: add_Inl split: if_splits)

lemma add_h2_storage_Inl: "add_h2_storage d devs n = Inl e \<Longrightarrow> e = ValueError"
  by (auto simp: add_h2_storage_def dest: add_Inl split: if_splits)

lemma build_model_Inl:
  assumes "build_model self comps = Inl e"
  shows "e = ValueError \<or> (\<exists>k. e = KeyError k)"
  using assms unfolding build_model_def Let_def and_then_Inl
  by (auto dest: add_buses_Inl add_grid_Inl add_pv_Inl add_loads_Inl add_electric_boiler_Inl
        add_heat_pumps_Inl add_electrolyzer_Inl add_fuel_cell_Inl add_battery_Inl
        add_h2_storage_Inl)

text \<open>The horizon: the snapshots are \<^verbatim>\<open>range(hours)\<close>.\<close>

lemma IESModel_init_horizon:
  assumes "IESModel_init d = Inr s0" and "dict_get d ''hours'' (PyInt 24) = PyInt h"
  shows "snapshots (model_n s0) = [0..h - 1]" and "length (snapshots (model_n s0)) = nat h"
proof -
  show "snapshots (model_n s0) = [0..h - 1]"
    using assms
    by (auto simp: IESModel_init_def Let_def set_snapshots_def empty_network_def
          split: sum.splits if_splits)
  then show "length (snapshots (model_n s0)) = nat h"
    by simp
qed

lemma IESModel_init_short_load:
  "IESModel_init short_load_data =
     Inr \<lparr>model_data = short_load_data, model_hours = PyInt 2,
          model_n = \<lparr>snapshots = [0, 1], components = []\<rparr>\<rparr>"
  by (simp add: IESModel_init_def short_load_data_def demo_data_def dict_get_def Let_def
        empty_network_def set_snapshots_def upto.simps)

lemma IESModel_init_no_heat:
  "IESModel_init no_heat_data =
     Inr \<lparr>model_data = no_heat_data, model_hours = PyInt 2,
          model_n = \<lparr>snapshots = [0, 1], components = []\<rparr>\<rparr>"
  by (simp add: IESModel_init_def no_heat_data_def demo_data_def dict_get_def Let_def
        empty_network_def set_snapshots_def upto.simps)

section \<open>Lemmas about the custom constraints\<close>

text \<open>
  One iteration of the loop adds the family's variable and constraints when the family is
  present and nothing otherwise; the capacity lookup cannot fail then.
\<close>

lemma links_at_p_nom_present:
  assumes "nm \<in> set (index_of Link n)"
  shows "\<exists>v. links_at_p_nom n nm = Inr v"
proof -
  from assms obtain c where "c \<in> set (components n)" "cls c = Link" "cname c = nm"
    by (auto simp: index_of_def)
  then have "find (\<lambda>x. cls x = Link \<and> cname x = nm) (components n) \<noteq> None"
    by (auto simp: find_None_iff)
  then show ?thesis
    by (auto simp: links_at_p_nom_def find_component_def split: option.splits)
qed

lemma hp_constraints_step_present:
  assumes "family_present n p"
  shows "hp_constraints_step n ts p m =
     Inr (m\<lparr>variables := variables m @ [spec_mode_variable ts p],
            constraints := constraints m @ spec_family_constraints p (family_p_nom n p)\<rparr>)"
proof -
  from assms have h: "p @ ''_heating'' \<in> set (index_of Link n)"
    and c: "p @ ''_cooling'' \<in> set (index_of Link n)"
    by (simp_all add: family_present_def)
  from links_at_p_nom_present [OF h] obtain v where v: "links_at_p_nom n (p @ ''_heating'') = Inr v"
    by blast
  then have "family_p_nom n p = v"
    by (simp add: family_p_nom_def)
  with h c v show ?thesis
    by (simp add: hp_constraints_step_def Let_def add_constraints_def add_variables_def
          spec_mode_variable_def spec_family_constraints_def)
qed

lemma hp_constraints_step_absent:
  "\<not> family_present n p \<Longrightarrow> hp_constraints_step n ts p m = Inr m"
  by (auto simp: hp_constraints_step_def family_present_def Let_def)

text \<open>The whole loop, for any list of prefixes.\<close>

lemma for_each_hp_constraints_step:
  "for_each (hp_constraints_step n ts) ps m =
     Inr (m\<lparr>variables := variables m @ map (spec_mode_variable ts) (filter (family_present n) ps),
            constraints := constraints m @
              concat (map (\<lambda>p. spec_family_constraints p (family_p_nom n p))
                        (filter (family_present n) ps))\<rparr>)"
proof (induction ps arbitrary: m)
  case Nil
  show ?case by simp
next
  case (Cons p ps)
  show ?case
  proof (cases "family_present n p")
    case True
    then show ?thesis
      by (simp add: hp_constraints_step_present Cons.IH)
  next
    case False
    then show ?thesis
      by (simp add: hp_constraints_step_absent Cons.IH)
  qed
qed

text \<open>The three constraints of a family at one snapshot.\<close>

lemma spec_family_constraints_meaning:
  assumes "num_of v = Some c"
  shows "(\<forall>k \<in> set (spec_family_constraints p v). holds_at a t k) \<longleftrightarrow>
     (link_p a (p @ ''_heating'') t + link_p a (p @ ''_cooling'') t \<le> c
      \<and> link_p a (p @ ''_heating'') t \<le> model_var a (p @ ''_mode'') t * c
      \<and> link_p a (p @ ''_cooling'') t \<le> (1 - model_var a (p @ ''_mode'') t) * c)"
  using assms by (simp add: spec_family_constraints_def holds_at_def)

lemma is_mip_extended:
  "is_mip (m\<lparr>variables := variables m @ map (spec_mode_variable ts) ps, constraints := cs\<rparr>)
     \<longleftrightarrow> is_mip m \<or> ps \<noteq> []"
  by (cases ps) (auto simp: is_mip_def list_ex_iff spec_mode_variable_def)

lemma extra_functionality_result:
  "extra_functionality n ts m =
     Inr (if has_variable m ''Link-p'' then
            m\<lparr>variables := variables m @
                   map (spec_mode_variable ts) (filter (family_present n) hp_prefixes),
              constraints := constraints m @
                   concat (map (\<lambda>p. spec_family_constraints p (family_p_nom n p))
                             (filter (family_present n) hp_prefixes))\<rparr>
          else m)"
  by (simp add: extra_functionality_def for_each_hp_constraints_step)

text \<open>On a built network the capacity the formulator reads is the configured one.\<close>

lemma find_filter_hd:
  "find P xs = (case filter P xs of [] \<Rightarrow> None | x # ys \<Rightarrow> Some x)"
  by (induction xs) auto

lemma built_heating_link:
  assumes "IESModel_init d = Inr s0" and "build_model s0 comps = Inr s1"
    and "p \<in> set hp_prefixes"
  shows "filter (\<lambda>c. cname c = p @ ''_heating'')
           (filter (\<lambda>c. cls c = Link) (components (model_n s1))) =
       (if p \<in> set (all_devices_of comps) then
          [\<lparr>cls = Link, cname = p @ ''_heating'',
            attrs = [(''bus0'', PyStr ''electricity''), (''bus1'', PyStr ''heat''),
                     (''p_nom'', dict_get d (p @ ''_p_nom'') (PyInt 40)),
                     (''efficiency'', dict_get d (p @ ''_eff'') (PyFloat 3))]\<rparr>]
        else [])"
proof -
  note l = built_links [OF assms(1,2)]
  from assms(3) consider "p = ''ashp''" | "p = ''gshp_shallow''" | "p = ''gshp_deep''"
    by (auto simp: hp_prefixes_def)
  then show ?thesis
  proof cases
    case 1
    show ?thesis
      unfolding l 1
      by (simp split del: if_split cong del: if_weak_cong add: built_simps filter_if)
  next
    case 2
    show ?thesis
      unfolding l 2
      by (simp split del: if_split cong del: if_weak_cong add: built_simps filter_if)
  next
    case 3
    show ?thesis
      unfolding l 3
      by (simp split del: if_split cong del: if_weak_cong add: built_simps filter_if)
  qed
qed

lemma built_family_p_nom:
  assumes "IESModel_init d = Inr s0" and "build_model s0 comps = Inr s1"
    and "p \<in> set hp_prefixes" and "p \<in> set (all_devices_of comps)"
  shows "family_p_nom (model_n s1) p = dict_get d (p @ ''_p_nom'') (PyInt 40)"
proof -
  have "find_component (model_n s1) Link (p @ ''_heating'') =
          Some \<lparr>cls = Link, cname = p @ ''_heating'',
            attrs = [(''bus0'', PyStr ''electricity''), (''bus1'', PyStr ''heat''),
                     (''p_nom'', dict_get d (p @ ''_p_nom'') (PyInt 40)),
                     (''efficiency'', dict_get d (p @ ''_eff'') (PyFloat 3))]\<rparr>"
    unfolding find_component_def find_filter_hd filter_conj built_heating_link [OF assms(1,2,3)]
    using assms(4) by simp
  then show ?thesis
    by (simp add: family_p_nom_def links_at_p_nom_def)
qed

text \<open>The equations that evaluate \<^verbatim>\<open>extra_functionality\<close> on a concrete network.\<close>

lemmas formulate_eval =
  extra_functionality_def hp_constraints_step_def hp_prefixes_def has_variable_def
  index_of_def links_at_p_nom_def find_component_def add_constraints_def add_variables_def
  family_p_nom_def family_present_def Let_def

lemma has_variable_demo: "has_variable demo_base_model ''Link-p''"
  by (simp add: has_variable_def demo_base_model_def)

lemma build_demo_network:
  "build_model demo_model (Some [''grid'', ''ashp'']) = Inr (demo_model\<lparr>model_n := demo_network\<rparr>)"
  by (simp add: demo_network_def build_eval demo_model_def demo_data_def)

section \<open>Lemmas about solve\<close>

text \<open>
  A loop in which every named backend fails within the reach of the handlers: it ends
  without success, has called every backend in order, and has printed the announcement
  of every backend and the message of every backend that raised, and nothing else.
\<close>

lemma solve_loop_all_fail:
  assumes "\<forall>s \<in> set ss. fails (optimize (Some s))"
  shows "solve_loop optimize ss tr =
     (Inr False, tr\<lparr>printed := printed tr @ concat (map (failure_lines optimize) ss),
                    calls := calls tr @ map Some ss\<rparr>)"
  using assms
proof (induction ss arbitrary: tr)
  case Nil
  show ?case by simp
next
  case (Cons s ss)
  let ?tr1 = "tr\<lparr>printed := printed tr @ [''Attempting optimization with solver: '' @ s],
                  calls := calls tr @ [Some s]\<rparr>"
  from Cons.prems have rest: "\<forall>s \<in> set ss. fails (optimize (Some s))"
    and here: "fails (optimize (Some s))"
    by simp_all
  show ?case
  proof (cases "optimize (Some s)")
    case (Raises e)
    let ?tr2 = "?tr1\<lparr>printed := printed ?tr1 @ [''Solver '' @ s @ '' failed: '' @ e]\<rparr>"
    have step: "solve_loop optimize (s # ss) tr = solve_loop optimize ss ?tr2"
      using Raises by (simp add: Let_def)
    have lines: "failure_lines optimize s =
        [''Attempting optimization with solver: '' @ s, ''Solver '' @ s @ '' failed: '' @ e]"
      using Raises by (simp add: failure_lines_def)
    show ?thesis
      unfolding step Cons.IH [OF rest, of ?tr2] by (simp add: lines)
  next
    case (Interrupts x)
    with here show ?thesis
      by (simp add: fails_def)
  next
    case (Returns r)
    with here have "status_of r \<noteq> ''ok''"
      by (simp add: fails_def)
    with Returns have step: "solve_loop optimize (s # ss) tr = solve_loop optimize ss ?tr1"
      by (simp add: Let_def)
    have lines: "failure_lines optimize s = [''Attempting optimization with solver: '' @ s]"
      using Returns by (simp add: failure_lines_def)
    show ?thesis
      unfolding step Cons.IH [OF rest, of ?tr1] by (simp add: lines)
  qed
qed

text \<open>
  The handlers catch every exception derived from \<^verbatim>\<open>Exception\<close>: when no backend call
  raises another one, the loop and \<^verbatim>\<open>solve\<close> return a flag.
\<close>

lemma solve_loop_returns:
  assumes "\<forall>s \<in> set ss. \<forall>x. optimize (Some s) \<noteq> Interrupts x"
  shows "\<exists>r. fst (solve_loop optimize ss tr) = Inr r"
  using assms
proof (induction ss arbitrary: tr)
  case Nil
  show ?case by auto
next
  case (Cons s ss)
  from Cons.prems have rest: "\<forall>s \<in> set ss. \<forall>x. optimize (Some s) \<noteq> Interrupts x"
    by simp
  show ?case
  proof (cases "optimize (Some s)")
    case (Raises e)
    with Cons.IH [OF rest] show ?thesis
      by (simp add: Let_def)
  next
    case (Interrupts x)
    with Cons.prems show ?thesis
      by simp
  next
    case (Returns r)
    with Cons.IH [OF rest] show ?thesis
      by (auto simp: Let_def)
  qed
qed

lemma solve_returns:
  assumes "\<forall>b x. optimize b \<noteq> Interrupts x"
  shows "\<exists>r. solve optimize = Inr r"
proof -
  let ?l = "solve_loop optimize backend_priority \<lparr>printed = [], calls = []\<rparr>"
  from assms solve_loop_returns [of backend_priority optimize "\<lparr>printed = [], calls = []\<rparr>"]
  obtain r where "fst ?l = Inr r"
    by blast
  then obtain tr where l: "?l = (Inr r, tr)"
    by (cases ?l) simp
  from assms have n: "\<forall>x. optimize None \<noteq> Interrupts x"
    by blast
  show ?thesis
    using n by (cases "optimize None") (auto simp: solve_def solve_run_def l Let_def)
qed

text \<open>The run in which every named backend fails.\<close>

lemma solve_run_all_fail:
  assumes "\<forall>s \<in> set backend_priority. fails (optimize (Some s))"
  shows "calls (snd (solve_run optimize)) = map Some backend_priority @ [None]"
    and "optimize None = Raises e \<Longrightarrow> solve optimize = Inr False"
    and "optimize None = Raises e \<Longrightarrow>
           printed (snd (solve_run optimize)) =
             concat (map (failure_lines optimize) backend_priority)
             @ [''Trying default solver...'', ''All optimization attempts failed: '' @ e]"
proof -
  note l = solve_loop_all_fail [OF assms, of "\<lparr>printed = [], calls = []\<rparr>"]
  show "calls (snd (solve_run optimize)) = map Some backend_priority @ [None]"
    by (cases "optimize None") (simp_all add: solve_run_def l Let_def)
  show "solve optimize = Inr False" if "optimize None = Raises e"
    using that by (simp add: solve_def solve_run_def l Let_def)
  show "printed (snd (solve_run optimize)) =
             concat (map (failure_lines optimize) backend_priority)
             @ [''Trying default solver...'', ''All optimization attempts failed: '' @ e]"
    if "optimize None = Raises e"
    using that by (simp add: solve_run_def l Let_def)
qed

text \<open>
  What \<^verbatim>\<open>solve\<close> returns when no backend call is interrupted: the loop succeeds exactly when
  a named backend returns \<^verbatim>\<open>'ok'\<close>, and the default backend counts as a success whenever its
  call returns. In every run the loop calls the named backends in order up to the first
  one that does not fail.
\<close>

lemma solve_loop_success_iff:
  assumes "\<forall>s \<in> set ss. \<forall>x. optimize (Some s) \<noteq> Interrupts x"
  shows "fst (solve_loop optimize ss tr) = Inr (\<exists>s \<in> set ss. returns_ok (optimize (Some s)))"
  using assms
proof (induction ss arbitrary: tr)
  case Nil
  show ?case by simp
next
  case (Cons s ss)
  from Cons.prems have rest: "\<forall>s \<in> set ss. \<forall>x. optimize (Some s) \<noteq> Interrupts x"
    by simp
  show ?case
  proof (cases "optimize (Some s)")
    case (Raises e)
    then show ?thesis
      by (simp add: Let_def returns_ok_def Cons.IH [OF rest])
  next
    case (Interrupts x)
    with Cons.prems show ?thesis
      by simp
  next
    case (Returns r)
    then show ?thesis
      by (simp add: Let_def returns_ok_def Cons.IH [OF rest])
  qed
qed

lemma solve_iff:
  assumes "\<forall>b x. optimize b \<noteq> Interrupts x"
  shows "solve optimize =
     Inr ((\<exists>s \<in> set backend_priority. returns_ok (optimize (Some s)))
          \<or> (\<exists>results. optimize None = Returns results))"
proof -
  let ?l = "solve_loop optimize backend_priority \<lparr>printed = [], calls = []\<rparr>"
  from assms solve_loop_success_iff [of backend_priority optimize "\<lparr>printed = [], calls = []\<rparr>"]
  have "fst ?l = Inr (\<exists>s \<in> set backend_priority. returns_ok (optimize (Some s)))"
    by blast
  then obtain tr where
    l: "?l = (Inr (\<exists>s \<in> set backend_priority. returns_ok (optimize (Some s))), tr)"
    by (cases ?l) simp
  from assms have n: "\<forall>x. optimize None \<noteq> Interrupts x"
    by blast
  show ?thesis
    using n by (cases "optimize None") (auto simp: solve_def solve_run_def l Let_def)
qed

lemma solve_loop_calls:
  "calls (snd (solve_loop optimize ss tr)) =
     calls tr @ map Some (takeWhile (\<lambda>s. fails (optimize (Some s))) ss @
                         take 1 (dropWhile (\<lambda>s. fails (optimize (Some s))) ss))"
proof (induction ss arbitrary: tr)
  case Nil
  show ?case by simp
next
  case (Cons s ss)
  show ?case
  proof (cases "optimize (Some s)")
    case (Raises e)
    then show ?thesis
      by (simp add: Let_def fails_def Cons.IH)
  next
    case (Interrupts x)
    then show ?thesis
      by (simp add: Let_def fails_def)
  next
    case (Returns r)
    then show ?thesis
      by (simp add: Let_def fails_def Cons.IH)
  qed
qed

section \<open>Claims\<close>

text \<open>
  C1. \<^verbatim>\<open>extra_functionality\<close> always returns. When the model has the link-flow variable
  \<^verbatim>\<open>Link-p\<close> (the library defines it for every network that has links), then for every
  heat-pump family present in the network (both link names in the index) the model gains
  one binary mode variable over the snapshots and exactly the three constraints of the
  family, and nothing else is added. At every snapshot the three constraints say
  \<open>l_heat + l_cool \<le> p_nom\<close>, \<open>l_heat \<le> z * p_nom\<close> and \<open>l_cool \<le> (1 - z) * p_nom\<close>, with
  \<open>p_nom\<close> the heating link's capacity. So the resulting model is a mixed-integer program
  exactly when it was one before or a family was constrained, and stays a linear program
  otherwise; and on a network built by \<^verbatim>\<open>build_model\<close> a family is present exactly when its
  device was selected, with the capacity \<^verbatim>\<open>data.get('<name>_p_nom', 40)\<close>.
\<close>

theorem heat_pump_family_formulation:
  "\<exists>m'. extra_functionality n ts m = Inr m'
     \<and> (has_variable m ''Link-p'' \<longrightarrow>
          variables m' = variables m @
            map (spec_mode_variable ts) (filter (family_present n) hp_prefixes)
          \<and> constraints m' = constraints m @
            concat (map (\<lambda>p. spec_family_constraints p (family_p_nom n p))
                      (filter (family_present n) hp_prefixes)))
     \<and> (is_mip m' \<longleftrightarrow>
          is_mip m \<or> (has_variable m ''Link-p'' \<and> (\<exists>p \<in> set hp_prefixes. family_present n p)))
     \<and> (\<forall>p a t c. num_of (family_p_nom n p) = Some c \<longrightarrow>
           ((\<forall>k \<in> set (spec_family_constraints p (family_p_nom n p)). holds_at a t k) \<longleftrightarrow>
              link_p a (p @ ''_heating'') t + link_p a (p @ ''_cooling'') t \<le> c
              \<and> link_p a (p @ ''_heating'') t \<le> model_var a (p @ ''_mode'') t * c
              \<and> link_p a (p @ ''_cooling'') t \<le> (1 - model_var a (p @ ''_mode'') t) * c))
     \<and> (\<forall>d comps s0 s1.
           IESModel_init d = Inr s0 \<and> build_model s0 comps = Inr s1 \<and> n = model_n s1 \<longrightarrow>
           (\<forall>p \<in> set hp_prefixes.
              (family_present n p \<longleftrightarrow> p \<in> set (all_devices_of comps))
              \<and> (family_present n p \<longrightarrow>
                   family_p_nom n p = dict_get d (p @ ''_p_nom'') (PyInt 40))))"
proof -
  let ?m' = "if has_variable m ''Link-p'' then
               m\<lparr>variables := variables m @
                      map (spec_mode_variable ts) (filter (family_present n) hp_prefixes),
                 constraints := constraints m @
                      concat (map (\<lambda>p. spec_family_constraints p (family_p_nom n p))
                                (filter (family_present n) hp_prefixes))\<rparr>
             else m"
  have r: "extra_functionality n ts m = Inr ?m'"
    by (rule extra_functionality_result)
  have added: "has_variable m ''Link-p'' \<longrightarrow>
          variables ?m' = variables m @
            map (spec_mode_variable ts) (filter (family_present n) hp_prefixes)
          \<and> constraints ?m' = constraints m @
            concat (map (\<lambda>p. spec_family_constraints p (family_p_nom n p))
                      (filter (family_present n) hp_prefixes))"
    by simp
  have mip: "is_mip ?m' \<longleftrightarrow>
          is_mip m \<or> (has_variable m ''Link-p'' \<and> (\<exists>p \<in> set hp_prefixes. family_present n p))"
    by (simp add: is_mip_extended filter_empty_conv)
  have meaning: "\<forall>p a t c. num_of (family_p_nom n p) = Some c \<longrightarrow>
           ((\<forall>k \<in> set (spec_family_constraints p (family_p_nom n p)). holds_at a t k) \<longleftrightarrow>
              link_p a (p @ ''_heating'') t + link_p a (p @ ''_cooling'') t \<le> c
              \<and> link_p a (p @ ''_heating'') t \<le> model_var a (p @ ''_mode'') t * c
              \<and> link_p a (p @ ''_cooling'') t \<le> (1 - model_var a (p @ ''_mode'') t) * c)"
    using spec_family_constraints_meaning by blast
  have built: "\<forall>d comps s0 s1.
           IESModel_init d = Inr s0 \<and> build_model s0 comps = Inr s1 \<and> n = model_n s1 \<longrightarrow>
           (\<forall>p \<in> set hp_prefixes.
              (family_present n p \<longleftrightarrow> p \<in> set (all_devices_of comps))
              \<and> (family_present n p \<longrightarrow>
                   family_p_nom n p = dict_get d (p @ ''_p_nom'') (PyInt 40)))"
    using built_family_present built_family_p_nom by blast
  from r added mip meaning built show ?thesis
    by (intro exI [of _ ?m'] conjI)
qed

text \<open>
  The network built with the grid and the air-source heat pump of capacity 500: the model
  becomes a mixed-integer program, and heating with 300 in mode 1 satisfies the family's
  constraints.
\<close>

theorem heat_pump_family_formulation_witness:
  "has_variable demo_base_model ''Link-p''
   \<and> IESModel_init demo_data = Inr demo_model
   \<and> is_mip (projr (extra_functionality demo_network [0, 1] demo_base_model))
   \<and> family_p_nom demo_network ''ashp'' = PyInt 500
   \<and> list_all (holds_at demo_assignment 0) (spec_family_constraints ''ashp'' (PyInt 500))"
proof -
  from heat_pump_family_formulation [of demo_network "[0, 1]" demo_base_model]
  obtain m' where r: "extra_functionality demo_network [0, 1] demo_base_model = Inr m'"
    and mip: "is_mip m' \<longleftrightarrow> is_mip demo_base_model
       \<or> (has_variable demo_base_model ''Link-p'' \<and> (\<exists>p \<in> set hp_prefixes. family_present demo_network p))"
    and meaning: "\<forall>p a t c. num_of (family_p_nom demo_network p) = Some c \<longrightarrow>
           ((\<forall>k \<in> set (spec_family_constraints p (family_p_nom demo_network p)). holds_at a t k) \<longleftrightarrow>
              link_p a (p @ ''_heating'') t + link_p a (p @ ''_cooling'') t \<le> c
              \<and> link_p a (p @ ''_heating'') t \<le> model_var a (p @ ''_mode'') t * c
              \<and> link_p a (p @ ''_cooling'') t \<le> (1 - model_var a (p @ ''_mode'') t) * c)"
    and built: "\<forall>d comps s0 s1.
           IESModel_init d = Inr s0 \<and> build_model s0 comps = Inr s1 \<and> demo_network = model_n s1 \<longrightarrow>
           (\<forall>p \<in> set hp_prefixes.
              (family_present demo_network p \<longleftrightarrow> p \<in> set (all_devices_of comps))
              \<and> (family_present demo_network p \<longrightarrow>
                   family_p_nom demo_network p = dict_get d (p @ ''_p_nom'') (PyInt 40)))"
    by blast
  have a: "''ashp'' \<in> set hp_prefixes"
    by (simp add: hp_prefixes_def)
  from built IESModel_init_demo build_demo_network a
  have f: "(family_present demo_network ''ashp'' \<longleftrightarrow>
             ''ashp'' \<in> set (all_devices_of (Some [''grid'', ''ashp''])))
           \<and> (family_present demo_network ''ashp'' \<longrightarrow>
                family_p_nom demo_network ''ashp'' = dict_get demo_data (''ashp'' @ ''_p_nom'') (PyInt 40))"
    by force
  then have present: "family_present demo_network ''ashp''"
    by (simp add: all_devices_of_def)
  with f have p: "family_p_nom demo_network ''ashp'' = PyInt 500"
    by (simp add: dict_get_def demo_data_def)
  from mip present a has_variable_demo have "is_mip m'"
    by blast
  with r have m: "is_mip (projr (extra_functionality demo_network [0, 1] demo_base_model))"
    by simp
  from meaning [rule_format, of "''ashp''" 500 demo_assignment 0] p
  have "list_all (holds_at demo_assignment 0) (spec_family_constraints ''ashp'' (PyInt 500))"
    by (simp add: list_all_iff demo_assignment_def)
  with m p has_variable_demo IESModel_init_demo show ?thesis
    by simp
qed

text \<open>
  C2, as amended. For each heat-pump identifier (\<^verbatim>\<open>ashp\<close>, \<^verbatim>\<open>gshp_shallow\<close>, \<^verbatim>\<open>gshp_deep\<close>), a
  completed \<^verbatim>\<open>build_model\<close> has exactly two links named after it when it is selected, the
  heating link from electricity to heat and the cooling link from electricity to cooling,
  both with the capacity \<^verbatim>\<open>data.get('<name>_p_nom', 40)\<close>, and none when it is not selected.
  The network holds no record of the pairing: the formulator finds a family by looking up
  the two names, and on a built network this finds exactly the selected families.
\<close>

theorem heat_pump_links:
  assumes "IESModel_init d = Inr s0" and "build_model s0 comps = Inr s1"
    and "p \<in> set hp_prefixes"
  shows "filter (\<lambda>c. cname c = p @ ''_heating'' \<or> cname c = p @ ''_cooling'')
           (filter (\<lambda>c. cls c = Link) (components (model_n s1))) =
       (if p \<in> set (all_devices_of comps) then
          [\<lparr>cls = Link, cname = p @ ''_heating'',
            attrs = [(''bus0'', PyStr ''electricity''), (''bus1'', PyStr ''heat''),
                     (''p_nom'', dict_get d (p @ ''_p_nom'') (PyInt 40)),
                     (''efficiency'', dict_get d (p @ ''_eff'') (PyFloat 3))]\<rparr>,
           \<lparr>cls = Link, cname = p @ ''_cooling'',
            attrs = [(''bus0'', PyStr ''electricity''), (''bus1'', PyStr ''cooling''),
                     (''p_nom'', dict_get d (p @ ''_p_nom'') (PyInt 40)),
                     (''efficiency'', dict_get d (p @ ''_eer'') (PyFloat (35 / 10)))]\<rparr>]
        else [])
     \<and> (family_present (model_n s1) p \<longleftrightarrow> p \<in> set (all_devices_of comps))"
proof -
  note l = built_links [OF assms(1,2)]
  from assms(3) consider "p = ''ashp''" | "p = ''gshp_shallow''" | "p = ''gshp_deep''"
    by (auto simp: hp_prefixes_def)
  then have "filter (\<lambda>c. cname c = p @ ''_heating'' \<or> cname c = p @ ''_cooling'')
           (filter (\<lambda>c. cls c = Link) (components (model_n s1))) =
       (if p \<in> set (all_devices_of comps) then
          [\<lparr>cls = Link, cname = p @ ''_heating'',
            attrs = [(''bus0'', PyStr ''electricity''), (''bus1'', PyStr ''heat''),
                     (''p_nom'', dict_get d (p @ ''_p_nom'') (PyInt 40)),
                     (''efficiency'', dict_get d (p @ ''_eff'') (PyFloat 3))]\<rparr>,
           \<lparr>cls = Link, cname = p @ ''_cooling'',
            attrs = [(''bus0'', PyStr ''electricity''), (''bus1'', PyStr ''cooling''),
                     (''p_nom'', dict_get d (p @ ''_p_nom'') (PyInt 40)),
                     (''efficiency'', dict_get d (p @ ''_eer'') (PyFloat (35 / 10)))]\<rparr>]
        else [])"
  proof cases
    case 1
    show ?thesis
      unfolding l 1
      by (simp split del: if_split cong del: if_weak_cong add: built_simps filter_if)
  next
    case 2
    show ?thesis
      unfolding l 2
      by (simp split del: if_split cong del: if_weak_cong add: built_simps filter_if)
  next
    case 3
    show ?thesis
      unfolding l 3
      by (simp split del: if_split cong del: if_weak_cong add: built_simps filter_if)
  qed
  with built_family_present [OF assms] show ?thesis
    by blast
qed

text \<open>The same network: the two links of the air-source heat pump, both with capacity 500.\<close>

theorem heat_pump_links_witness:
  "IESModel_init demo_data = Inr demo_model
   \<and> family_present demo_network ''ashp''
   \<and> filter (\<lambda>c. cname c = ''ashp_heating'' \<or> cname c = ''ashp_cooling'')
       (filter (\<lambda>c. cls c = Link) (components demo_network)) =
       [\<lparr>cls = Link, cname = ''ashp_heating'',
            attrs = [(''bus0'', PyStr ''electricity''), (''bus1'', PyStr ''heat''),
                     (''p_nom'', PyInt 500), (''efficiency'', PyFloat 3)]\<rparr>,
        \<lparr>cls = Link, cname = ''ashp_cooling'',
            attrs = [(''bus0'', PyStr ''electricity''), (''bus1'', PyStr ''cooling''),
                     (''p_nom'', PyInt 500), (''efficiency'', PyFloat (35 / 10))]\<rparr>]"
proof -
  have a: "''ashp'' \<in> set hp_prefixes"
    by (simp add: hp_prefixes_def)
  have g: "dict_get demo_data ''ashp_p_nom'' (PyInt 40) = PyInt 500"
    "dict_get demo_data ''ashp_eff'' (PyFloat 3) = PyFloat 3"
    "dict_get demo_data ''ashp_eer'' (PyFloat (35 / 10)) = PyFloat (35 / 10)"
    by (simp_all add: dict_get_def demo_data_def)
  from heat_pump_links [OF IESModel_init_demo build_demo_network a] g
  show ?thesis
    by (simp add: IESModel_init_demo all_devices_of_def)
qed

text \<open>
  C2 as stated fails: the pairing made by \<^verbatim>\<open>build_model\<close> is not recorded anywhere. The
  formulator constrains the pair of the built network, and adds nothing once the same two
  links carry other names.
\<close>

theorem pairing_by_name_counterexample:
  "extra_functionality demo_network [0, 1] demo_base_model =
     Inr \<lparr>variables = [\<lparr>var_name = ''Link-p'', var_coords = [0, 1], var_binary = False\<rparr>,
                       \<lparr>var_name = ''ashp_mode'', var_coords = [0, 1], var_binary = True\<rparr>],
          constraints = spec_family_constraints ''ashp'' (PyInt 500)\<rparr>
   \<and> extra_functionality
       (rename_link ''ashp_cooling'' ''hp1_cooling''
         (rename_link ''ashp_heating'' ''hp1_heating'' demo_network))
       [0, 1] demo_base_model = Inr demo_base_model"
  by (simp add: demo_network_def build_eval demo_model_def demo_data_def formulate_eval
        demo_base_model_def rename_link_def spec_family_constraints_def)

text \<open>
  C3. Whenever \<^verbatim>\<open>build_model\<close> completes on a freshly initialised model, whatever the
  configuration and the selection, the network has the four buses electricity, heat,
  cooling and hydrogen and the loads \<^verbatim>\<open>elec_load\<close>, \<^verbatim>\<open>heat_load\<close> and \<^verbatim>\<open>cool_load\<close>; it has
  the load \<^verbatim>\<open>h2_load\<close> if and only if the configuration holds the key \<^verbatim>\<open>h2_load\<close>.
\<close>

theorem build_model_buses_and_loads:
  assumes "IESModel_init d = Inr s0" and "build_model s0 comps = Inr s1"
  shows "index_of Bus (model_n s1) = [''electricity'', ''heat'', ''cooling'', ''hydrogen'']
     \<and> index_of Load (model_n s1) =
         [''elec_load'', ''heat_load'', ''cool_load''] @
         (if dict_contains d ''h2_load'' then [''h2_load''] else [])
     \<and> (''h2_load'' \<in> set (index_of Load (model_n s1)) \<longleftrightarrow> dict_contains d ''h2_load'')"
proof -
  from IESModel_init_Inr [OF assms(1)] have d: "model_data s0 = d" and e: "components (model_n s0) = []"
    by simp_all
  have b: "index_of Bus (model_n s1) = [''electricity'', ''heat'', ''cooling'', ''hydrogen'']"
    by (simp add: index_of_filter built_class_Bus [OF assms(2) e])
  have l: "index_of Load (model_n s1) =
         [''elec_load'', ''heat_load'', ''cool_load''] @
         (if dict_contains d ''h2_load'' then [''h2_load''] else [])"
    by (simp add: index_of_filter built_class_Load [OF assms(2) e] d)
  have "''h2_load'' \<in> set (index_of Load (model_n s1)) \<longleftrightarrow> dict_contains d ''h2_load''"
    unfolding l by simp
  with b l show ?thesis by blast
qed

text \<open>The small configuration with only the grid selected: it supplies a hydrogen demand.\<close>

theorem build_model_buses_and_loads_witness:
  "IESModel_init demo_data = Inr demo_model
   \<and> index_of Bus (model_n (projr (build_model demo_model (Some [''grid'']))))
     = [''electricity'', ''heat'', ''cooling'', ''hydrogen'']
   \<and> index_of Load (model_n (projr (build_model demo_model (Some [''grid'']))))
     = [''elec_load'', ''heat_load'', ''cool_load'', ''h2_load'']"
proof -
  have h: "dict_contains demo_data ''h2_load''"
    by (simp add: dict_contains_def demo_data_def)
  from build_model_buses_and_loads [OF IESModel_init_demo build_model_demo_grid] h
  show ?thesis
    by (simp add: IESModel_init_demo)
qed

text \<open>
  C4. On a completed \<^verbatim>\<open>build_model\<close>, each selected converter is the one link of its name,
  wired as the device table says: \<^verbatim>\<open>electric_boiler\<close> from electricity (\<^verbatim>\<open>bus0\<close>) to heat
  (\<^verbatim>\<open>bus1\<close>); \<^verbatim>\<open>electrolyzer\<close> from electricity to hydrogen; \<^verbatim>\<open>fuel_cell\<close> from hydrogen
  (\<^verbatim>\<open>bus0\<close>) to electricity (\<^verbatim>\<open>bus1\<close>, with \<^verbatim>\<open>efficiency\<close>) and heat (\<^verbatim>\<open>bus2\<close>, with
  \<^verbatim>\<open>efficiency2\<close>). A converter that is not selected has no link.
\<close>

theorem converter_wiring:
  assumes "IESModel_init d = Inr s0" and "build_model s0 comps = Inr s1"
  shows "filter (\<lambda>c. cls c = Link \<and> cname c = ''electric_boiler'') (components (model_n s1)) =
       (if ''electric_boiler'' \<in> set (all_devices_of comps) then
          [\<lparr>cls = Link, cname = ''electric_boiler'',
            attrs = [(''bus0'', PyStr ''electricity''), (''bus1'', PyStr ''heat''),
                     (''p_nom'', dict_get d ''boiler_p_nom'' (PyInt 20)),
                     (''efficiency'', dict_get d ''boiler_eff'' (PyFloat (98 / 100)))]\<rparr>]
        else [])
     \<and> filter (\<lambda>c. cls c = Link \<and> cname c = ''electrolyzer'') (components (model_n s1)) =
       (if ''electrolyzer'' \<in> set (all_devices_of comps) then
          [\<lparr>cls = Link, cname = ''electrolyzer'',
            attrs = [(''bus0'', PyStr ''electricity''), (''bus1'', PyStr ''hydrogen''),
                     (''p_nom'', dict_get d ''ely_p_nom'' (PyInt 50)),
                     (''efficiency'', dict_get d ''ely_eff'' (PyFloat (75 / 100)))]\<rparr>]
        else [])
     \<and> filter (\<lambda>c. cls c = Link \<and> cname c = ''fuel_cell'') (components (model_n s1)) =
       (if ''fuel_cell'' \<in> set (all_devices_of comps) then
          [\<lparr>cls = Link, cname = ''fuel_cell'',
            attrs = [(''bus0'', PyStr ''hydrogen''), (''bus1'', PyStr ''electricity''),
                     (''bus2'', PyStr ''heat''),
                     (''p_nom'', dict_get d ''fc_p_nom'' (PyInt 50)),
                     (''efficiency'', dict_get d ''fc_eff_elec'' (PyFloat (45 / 100))),
                     (''efficiency2'', dict_get d ''fc_eff_heat'' (PyFloat (40 / 100)))]\<rparr>]
        else [])"
proof -
  note l = built_links [OF assms]
  have b: "filter (\<lambda>c. cname c = ''electric_boiler'')
             (filter (\<lambda>c. cls c = Link) (components (model_n s1))) =
       (if ''electric_boiler'' \<in> set (all_devices_of comps) then
          [\<lparr>cls = Link, cname = ''electric_boiler'',
            attrs = [(''bus0'', PyStr ''electricity''), (''bus1'', PyStr ''heat''),
                     (''p_nom'', dict_get d ''boiler_p_nom'' (PyInt 20)),
                     (''efficiency'', dict_get d ''boiler_eff'' (PyFloat (98 / 100)))]\<rparr>]
        else [])"
    unfolding l
    by (simp split del: if_split cong del: if_weak_cong add: built_simps filter_if)
  have y: "filter (\<lambda>c. cname c = ''electrolyzer'')
             (filter (\<lambda>c. cls c = Link) (components (model_n s1))) =
       (if ''electrolyzer'' \<in> set (all_devices_of comps) then
          [\<lparr>cls = Link, cname = ''electrolyzer'',
            attrs = [(''bus0'', PyStr ''electricity''), (''bus1'', PyStr ''hydrogen''),
                     (''p_nom'', dict_get d ''ely_p_nom'' (PyInt 50)),
                     (''efficiency'', dict_get d ''ely_eff'' (PyFloat (75 / 100)))]\<rparr>]
        else [])"
    unfolding l
    by (simp split del: if_split cong del: if_weak_cong add: built_simps filter_if)
  have f: "filter (\<lambda>c. cname c = ''fuel_cell'')
             (filter (\<lambda>c. cls c = Link) (components (model_n s1))) =
       (if ''fuel_cell'' \<in> set (all_devices_of comps) then
          [\<lparr>cls = Link, cname = ''fuel_cell'',
            attrs = [(''bus0'', PyStr ''hydrogen''), (''bus1'', PyStr ''electricity''),
                     (''bus2'', PyStr ''heat''),
                     (''p_nom'', dict_get d ''fc_p_nom'' (PyInt 50)),
                     (''efficiency'', dict_get d ''fc_eff_elec'' (PyFloat (45 / 100))),
                     (''efficiency2'', dict_get d ''fc_eff_heat'' (PyFloat (40 / 100)))]\<rparr>]
        else [])"
    unfolding l
    by (simp split del: if_split cong del: if_weak_cong add: built_simps filter_if)
  from b y f show ?thesis
    unfolding filter_conj by blast
qed

text \<open>The small configuration with only the fuel cell selected.\<close>

theorem converter_wiring_witness:
  "IESModel_init demo_data = Inr demo_model
   \<and> filter (\<lambda>c. cls c = Link \<and> cname c = ''fuel_cell'')
       (components (model_n (projr (build_model demo_model (Some [''fuel_cell''])))))
     = [\<lparr>cls = Link, cname = ''fuel_cell'',
          attrs = [(''bus0'', PyStr ''hydrogen''), (''bus1'', PyStr ''electricity''),
                   (''bus2'', PyStr ''heat''), (''p_nom'', PyInt 50),
                   (''efficiency'', PyFloat (45 / 100)),
                   (''efficiency2'', PyFloat (40 / 100))]\<rparr>]
   \<and> filter (\<lambda>c. cls c = Link \<and> cname c = ''electrolyzer'')
       (components (model_n (projr (build_model demo_model (Some [''fuel_cell''])))))
     = []"
proof -
  have g: "dict_get demo_data ''fc_p_nom'' (PyInt 50) = PyInt 50"
    "dict_get demo_data ''fc_eff_elec'' (PyFloat (45 / 100)) = PyFloat (45 / 100)"
    "dict_get demo_data ''fc_eff_heat'' (PyFloat (40 / 100)) = PyFloat (40 / 100)"
    by (simp_all add: dict_get_def demo_data_def)
  from converter_wiring [OF IESModel_init_demo build_model_demo_fuel_cell] g
  show ?thesis
    by (simp add: IESModel_init_demo all_devices_of_def)
qed

text \<open>
  C5, as amended. On a completed \<^verbatim>\<open>build_model\<close>, every component satisfies
  \<open>capacity_fixed\<close>: no component is given a capital cost; every generator, link and
  storage unit other than \<^verbatim>\<open>grid\<close> has its \<^verbatim>\<open>p_nom\<close> from the configuration key of the table
  (or the default) and is not marked extendable; the generator \<^verbatim>\<open>grid\<close> is created with
  \<^verbatim>\<open>p_nom_extendable=True\<close> and without \<^verbatim>\<open>p_nom\<close>, so its capacity is left to the optimiser.
\<close>

theorem capacities_fixed_except_grid:
  assumes "IESModel_init d = Inr s0" and "build_model s0 comps = Inr s1"
  shows "\<forall>c \<in> set (components (model_n s1)). capacity_fixed d c"
proof -
  from IESModel_init_Inr [OF assms(1)] have d: "model_data s0 = d" and e: "components (model_n s0) = []"
    by simp_all
  show ?thesis
    unfolding build_model_components [OF assms(2)] e d
    by (simp only: set_append ball_Un append_Nil)
      (intro conjI ball_components_if;
        simp add: capacity_fixed_generators capacity_fixed_converters capacity_fixed_heat_pumps
          capacity_fixed_storage capacity_fixed_buses_loads)
qed

text \<open>The small configuration with the selection omitted: all 21 components.\<close>

theorem capacities_fixed_except_grid_witness:
  "IESModel_init demo_data = Inr demo_model
   \<and> list_all (capacity_fixed demo_data) (components (model_n (projr (build_model demo_model None))))
   \<and> length (components (model_n (projr (build_model demo_model None)))) = 21"
proof -
  have "length (components (model_n (projr (build_model demo_model None)))) = 21"
    by (simp add: build_eval demo_model_def demo_data_def)
  with capacities_fixed_except_grid [OF IESModel_init_demo build_model_demo_default]
  show ?thesis
    by (simp add: IESModel_init_demo list_all_iff)
qed

text \<open>
  C5 as stated fails on the default portfolio: the generator \<^verbatim>\<open>grid\<close> is marked extendable
  and takes no capacity from the configuration.
\<close>

theorem grid_capacity_extendable_counterexample:
  "find_component (model_n (projr (build_model demo_model None))) Generator ''grid'' =
     Some \<lparr>cls = Generator, cname = ''grid'',
           attrs = [(''bus'', PyStr ''electricity''),
                    (''p_nom_extendable'', PyBool True),
                    (''marginal_cost'', PyFloat (6 / 10))]\<rparr>"
  by (simp add: build_eval demo_model_def demo_data_def find_component_def)

text \<open>
  C6. The claim: \<^verbatim>\<open>solve\<close> reports success exactly when an attempted backend, the default
  one included, returns the status \<^verbatim>\<open>'ok'\<close>. The loop over the three named backends
  checks the status; the call of the default backend does not. With the three named
  solvers unavailable and a default solver that reports an infeasible problem, \<^verbatim>\<open>solve\<close>
  calls the four backends in order and returns \<^verbatim>\<open>True\<close>, although no call returned \<^verbatim>\<open>'ok'\<close>.
\<close>

theorem default_backend_status_unchecked:
  "solve infeasible_default = Inr True
   \<and> calls (snd (solve_run infeasible_default)) = [Some ''gurobi'', Some ''copt'', Some ''glpk'', None]
   \<and> \<not> list_ex (\<lambda>b. returns_ok (infeasible_default b)) (calls (snd (solve_run infeasible_default)))"
  by (simp add: solve_def solve_run_def backend_priority_def infeasible_default_def Let_def
        returns_ok_def)

text \<open>
  C7, as amended. \<^verbatim>\<open>solve\<close> catches every exception derived from \<^verbatim>\<open>Exception\<close> that a
  backend call raises: when no backend call raises another one, \<^verbatim>\<open>solve\<close> returns a
  boolean. When every backend of the priority list fails (it raises such an exception, or
  returns a status other than \<^verbatim>\<open>'ok'\<close>), \<^verbatim>\<open>solve\<close> has called them in order and then the default
  backend, once. When that call raises too, \<^verbatim>\<open>solve\<close> returns \<^verbatim>\<open>False\<close>, a bare boolean: the
  failure reasons are not returned. They are printed, and only those of the calls that
  raised: the lines are, for every named backend in order, its announcement, followed by
  \<^verbatim>\<open>Solver <name> failed: <message>\<close> when its call raised and by nothing when it returned
  another status, then \<^verbatim>\<open>Trying default solver...\<close> and
  \<^verbatim>\<open>All optimization attempts failed: <message>\<close>.
\<close>

theorem solve_failure_is_a_value:
  "((\<forall>b x. optimize b \<noteq> Interrupts x) \<longrightarrow> (\<exists>r. solve optimize = Inr r))
   \<and> ((\<forall>s \<in> set backend_priority. fails (optimize (Some s))) \<longrightarrow>
        calls (snd (solve_run optimize)) = map Some backend_priority @ [None]
        \<and> (\<forall>e. optimize None = Raises e \<longrightarrow>
              solve optimize = Inr False
              \<and> printed (snd (solve_run optimize)) =
                  concat (map (failure_lines optimize) backend_priority)
                  @ [''Trying default solver...'', ''All optimization attempts failed: '' @ e]))"
  using solve_returns [of optimize] solve_run_all_fail [of optimize]
  by blast

text \<open>
  A run in which gurobi and glpk are missing, copt reports an infeasible problem and the
  default call finds no solver: nothing is printed about the status copt returned.
\<close>

theorem solve_failure_is_a_value_witness:
  "(\<forall>b x. mixed_failures b \<noteq> Interrupts x)
   \<and> list_all (\<lambda>s. fails (mixed_failures (Some s))) backend_priority
   \<and> mixed_failures None = Raises ''no solver found''
   \<and> solve mixed_failures = Inr False
   \<and> calls (snd (solve_run mixed_failures)) =
       [Some ''gurobi'', Some ''copt'', Some ''glpk'', None]
   \<and> printed (snd (solve_run mixed_failures)) =
       [''Attempting optimization with solver: gurobi'',
        ''Solver gurobi failed: solver not available'',
        ''Attempting optimization with solver: copt'',
        ''Attempting optimization with solver: glpk'',
        ''Solver glpk failed: solver not available'',
        ''Trying default solver...'',
        ''All optimization attempts failed: no solver found'']"
proof -
  have i: "\<forall>b x. mixed_failures b \<noteq> Interrupts x"
    by (simp add: mixed_failures_def split: option.splits)
  have h: "\<forall>s \<in> set backend_priority. fails (mixed_failures (Some s))"
    by (simp add: fails_def mixed_failures_def backend_priority_def)
  have n: "mixed_failures None = Raises ''no solver found''"
    by (simp add: mixed_failures_def)
  have f: "concat (map (failure_lines mixed_failures) backend_priority) =
       [''Attempting optimization with solver: gurobi'',
        ''Solver gurobi failed: solver not available'',
        ''Attempting optimization with solver: copt'',
        ''Attempting optimization with solver: glpk'',
        ''Solver glpk failed: solver not available'']"
    by (simp add: failure_lines_def mixed_failures_def backend_priority_def)
  from solve_failure_is_a_value [of mixed_failures] i h n
  have r: "(\<exists>r. solve mixed_failures = Inr r)
     \<and> calls (snd (solve_run mixed_failures)) = map Some backend_priority @ [None]
     \<and> solve mixed_failures = Inr False
     \<and> printed (snd (solve_run mixed_failures)) =
         concat (map (failure_lines mixed_failures) backend_priority)
         @ [''Trying default solver...'', ''All optimization attempts failed: '' @ ''no solver found'']"
    by blast
  then have c: "calls (snd (solve_run mixed_failures)) = [Some ''gurobi'', Some ''copt'', Some ''glpk'', None]"
    by (simp add: backend_priority_def)
  from r f have p: "printed (snd (solve_run mixed_failures)) =
       [''Attempting optimization with solver: gurobi'',
        ''Solver gurobi failed: solver not available'',
        ''Attempting optimization with solver: copt'',
        ''Attempting optimization with solver: glpk'',
        ''Solver glpk failed: solver not available'',
        ''Trying default solver...'',
        ''All optimization attempts failed: no solver found'']"
    by simp
  from i h n r c p show ?thesis
    by (simp add: list_all_iff)
qed

text \<open>
  C7 as stated fails twice. Two runs that fail for different reasons return the same
  value, so the value carries no reasons; only the printed lines differ. And an exception
  that is not derived from \<^verbatim>\<open>Exception\<close> leaves \<^verbatim>\<open>solve\<close>: with gurobi missing and the
  call of copt interrupted from the keyboard, the run ends after two calls with
  KeyboardInterrupt.
\<close>

theorem failure_reasons_not_returned_counterexample:
  "solve (failing_backends ''license expired'') = Inr False
   \<and> solve (failing_backends ''out of memory'') = Inr False
   \<and> printed (snd (solve_run (failing_backends ''license expired'')))
       \<noteq> printed (snd (solve_run (failing_backends ''out of memory'')))
   \<and> solve interrupted_backends = Inl ''KeyboardInterrupt''
   \<and> calls (snd (solve_run interrupted_backends)) = [Some ''gurobi'', Some ''copt'']"
  by (simp add: solve_def solve_run_def backend_priority_def failing_backends_def
        interrupted_backends_def Let_def)

text \<open>
  C8, as amended. There is no configuration error of its own: \<^verbatim>\<open>build_model\<close> fails with
  KeyError or ValueError, and the calling script ends with that error before \<^verbatim>\<open>solve\<close> is
  called, whenever a series it reads with \<^verbatim>\<open>self.data[...]\<close> is absent (\<^verbatim>\<open>pv_pu\<close> when the
  photovoltaic generator is instantiated, \<^verbatim>\<open>elec_load\<close>, \<^verbatim>\<open>heat_load\<close>, \<^verbatim>\<open>cool_load\<close> always), or
  a series it hands to the network has a length different from the horizon: \<^verbatim>\<open>grid_cost\<close>
  when the grid is instantiated, \<^verbatim>\<open>pv_pu\<close> when the photovoltaic generator is, the three
  demands, and \<^verbatim>\<open>h2_load\<close> when supplied. The horizon is the number of snapshots, \<^verbatim>\<open>hours\<close>
  with the default 24. The length is checked by the network when the series is added, so
  a supplied series that \<^verbatim>\<open>build_model\<close> does not read is not checked.
\<close>

theorem build_model_fails_before_solve:
  assumes "IESModel_init d = Inr s0"
  shows "(required_series_missing d comps
          \<or> (\<exists>k \<in> set (series_read d comps). wrong_length (length (snapshots (model_n s0))) d k) \<longrightarrow>
          (\<exists>e. build_model s0 comps = Inl e
                \<and> (e = ValueError \<or> (\<exists>k. e = KeyError k))
                \<and> run_simulation d comps optimize = Inl e))
     \<and> (\<forall>h. dict_get d ''hours'' (PyInt 24) = PyInt h \<longrightarrow> length (snapshots (model_n s0)) = nat h)"
proof -
  from IESModel_init_Inr [OF assms] have d: "model_data s0 = d"
    by simp
  have "\<exists>e. build_model s0 comps = Inl e
                \<and> (e = ValueError \<or> (\<exists>k. e = KeyError k))
                \<and> run_simulation d comps optimize = Inl e"
    if bad: "required_series_missing d comps
          \<or> (\<exists>k \<in> set (series_read d comps). wrong_length (length (snapshots (model_n s0))) d k)"
  proof (cases "build_model s0 comps")
    case (Inl e)
    with build_model_Inl [OF Inl] assms show ?thesis
      by (simp add: run_simulation_def)
  next
    case (Inr s1)
    from build_model_Inr_conditions [OF Inr] bad d show ?thesis
      by auto
  qed
  moreover have "\<forall>h. dict_get d ''hours'' (PyInt 24) = PyInt h \<longrightarrow>
      length (snapshots (model_n s0)) = nat h"
    using IESModel_init_horizon(2) [OF assms] by blast
  ultimately show ?thesis
    by blast
qed

text \<open>
  The small configuration with a one-entry electricity demand, and the one without the
  heat demand.
\<close>

theorem build_model_fails_before_solve_witness:
  "wrong_length 2 short_load_data ''elec_load''
   \<and> ''elec_load'' \<in> set (series_read short_load_data None)
   \<and> isl (build_model \<lparr>model_data = short_load_data, model_hours = PyInt 2,
          model_n = \<lparr>snapshots = [0, 1], components = []\<rparr>\<rparr> None)
   \<and> isl (run_simulation short_load_data None infeasible_default)
   \<and> required_series_missing no_heat_data None
   \<and> isl (build_model \<lparr>model_data = no_heat_data, model_hours = PyInt 2,
          model_n = \<lparr>snapshots = [0, 1], components = []\<rparr>\<rparr> None)
   \<and> isl (run_simulation no_heat_data None infeasible_default)"
proof -
  have w: "wrong_length 2 short_load_data ''elec_load''"
    by (simp add: wrong_length_def short_load_data_def)
  have r: "''elec_load'' \<in> set (series_read short_load_data None)"
    by (simp add: series_read_def)
  have m: "required_series_missing no_heat_data None"
    by (simp add: required_series_missing_def no_heat_data_def)
  have w': "wrong_length (length [0, 1 :: int]) short_load_data ''elec_load''"
    using w by (simp add: numeral_2_eq_2)
  from build_model_fails_before_solve [OF IESModel_init_short_load, of None infeasible_default] w' r
  have a: "isl (build_model \<lparr>model_data = short_load_data, model_hours = PyInt 2,
          model_n = \<lparr>snapshots = [0, 1], components = []\<rparr>\<rparr> None)
     \<and> isl (run_simulation short_load_data None infeasible_default)"
    by auto
  from build_model_fails_before_solve [OF IESModel_init_no_heat, of None infeasible_default] m
  have b: "isl (build_model \<lparr>model_data = no_heat_data, model_hours = PyInt 2,
          model_n = \<lparr>snapshots = [0, 1], components = []\<rparr>\<rparr> None)
     \<and> isl (run_simulation no_heat_data None infeasible_default)"
    by auto
  from w r m a b show ?thesis
    by blast
qed

text \<open>
  C8 as stated fails for a series that is supplied and not read: with only the grid
  selected, the one-entry \<^verbatim>\<open>pv_pu\<close> on a horizon of 2 is not looked at, the model is built
  and the solvers are called.
\<close>

theorem series_length_unchecked_counterexample:
  "IESModel_init short_series_data =
     Inr \<lparr>model_data = short_series_data, model_hours = PyInt 2,
          model_n = \<lparr>snapshots = [0, 1], components = []\<rparr>\<rparr>
   \<and> short_series_data ''pv_pu'' = Some (PyList [PyFloat (1 / 2)])
   \<and> index_of Generator (model_n (projr (build_model
        \<lparr>model_data = short_series_data, model_hours = PyInt 2,
         model_n = \<lparr>snapshots = [0, 1], components = []\<rparr>\<rparr> (Some [''grid'']))))
       = [''grid'']
   \<and> \<not> isl (build_model
        \<lparr>model_data = short_series_data, model_hours = PyInt 2,
         model_n = \<lparr>snapshots = [0, 1], components = []\<rparr>\<rparr> (Some [''grid'']))
   \<and> \<not> isl (run_simulation short_series_data (Some [''grid'']) infeasible_default)"
  by (simp add: run_simulation_def IESModel_init_def build_eval short_series_data_def demo_data_def
        empty_network_def set_snapshots_def upto.simps index_of_def)

text \<open>
  C9, as amended. \<^verbatim>\<open>extra_functionality\<close> never fails, and it reads nothing of the network
  but the names of the links and the capacities of the heating links: two networks that
  agree on these get the same constraints, whatever the capacities of the cooling links
  and whatever buses the links name.
\<close>

theorem formulator_never_fails:
  "(\<exists>m'. extra_functionality n ts m = Inr m')
   \<and> (index_of Link n = index_of Link n'
        \<and> (\<forall>p \<in> set hp_prefixes. family_p_nom n p = family_p_nom n' p) \<longrightarrow>
      extra_functionality n ts m = extra_functionality n' ts m)"
proof -
  have "extra_functionality n ts m = extra_functionality n' ts m"
    if i: "index_of Link n = index_of Link n'"
      and p: "\<forall>p \<in> set hp_prefixes. family_p_nom n p = family_p_nom n' p"
  proof -
    from i have f: "family_present n = family_present n'"
      by (simp add: family_present_def fun_eq_iff)
    have e: "map (\<lambda>p. spec_family_constraints p (family_p_nom n p))
            (filter (family_present n') hp_prefixes) =
          map (\<lambda>p. spec_family_constraints p (family_p_nom n' p))
            (filter (family_present n') hp_prefixes)"
      using p by (intro map_cong) auto
    show ?thesis
      by (simp only: extra_functionality_result f e)
  qed
  then show ?thesis
    by (simp add: extra_functionality_result)
qed

text \<open>The two hand-made networks differ in the cooling link's capacity only.\<close>

theorem formulator_never_fails_witness:
  "index_of Link mismatched_network = index_of Link matched_network
   \<and> extra_functionality mismatched_network [0, 1] demo_base_model =
     extra_functionality matched_network [0, 1] demo_base_model"
proof -
  have i: "index_of Link mismatched_network = index_of Link matched_network"
    by (simp add: index_of_def mismatched_network_def matched_network_def add_def)
  have p: "\<forall>p \<in> set hp_prefixes. family_p_nom mismatched_network p = family_p_nom matched_network p"
    by (simp add: hp_prefixes_def family_p_nom_def links_at_p_nom_def find_component_def
          mismatched_network_def matched_network_def add_def set_snapshots_def empty_network_def)
  from formulator_never_fails [of mismatched_network "[0, 1]" demo_base_model matched_network] i p
  show ?thesis
    by blast
qed

text \<open>
  C9 as stated fails: on a network without buses whose heating link has capacity 100 and
  whose cooling link has capacity 60, the formulator reports nothing and emits the
  constraints with capacity 100.
\<close>

theorem mismatched_capacity_counterexample:
  "links_at_p_nom mismatched_network ''gshp_deep_heating'' = Inr (PyInt 100)
   \<and> links_at_p_nom mismatched_network ''gshp_deep_cooling'' = Inr (PyInt 60)
   \<and> index_of Bus mismatched_network = []
   \<and> extra_functionality mismatched_network [0, 1] demo_base_model =
     Inr \<lparr>variables = [\<lparr>var_name = ''Link-p'', var_coords = [0, 1], var_binary = False\<rparr>,
                       \<lparr>var_name = ''gshp_deep_mode'', var_coords = [0, 1], var_binary = True\<rparr>],
          constraints = spec_family_constraints ''gshp_deep'' (PyInt 100)\<rparr>"
  by (simp add: formulate_eval mismatched_network_def add_def set_snapshots_def empty_network_def
        demo_base_model_def spec_family_constraints_def)

text \<open>
  C10. With \<^verbatim>\<open>components\<close> omitted (\<open>None\<close>), a completed \<^verbatim>\<open>build_model\<close> has instantiated
  the whole default portfolio: the generators \<^verbatim>\<open>grid\<close> and \<^verbatim>\<open>pv\<close>, the links of the electric
  boiler, of the three heat pumps (a heating and a cooling link each), of the electrolyzer
  and of the fuel cell, and the storage units \<^verbatim>\<open>battery\<close> and \<^verbatim>\<open>h2_storage\<close>.
\<close>

theorem build_model_default_portfolio:
  assumes "IESModel_init d = Inr s0" and "build_model s0 None = Inr s1"
  shows "index_of Generator (model_n s1) = [''grid'', ''pv'']
     \<and> index_of Link (model_n s1) =
         [''electric_boiler'', ''ashp_heating'', ''ashp_cooling'', ''gshp_shallow_heating'',
          ''gshp_shallow_cooling'', ''gshp_deep_heating'', ''gshp_deep_cooling'',
          ''electrolyzer'', ''fuel_cell'']
     \<and> index_of StorageUnit (model_n s1) = [''battery'', ''h2_storage'']"
proof -
  from IESModel_init_Inr [OF assms(1)] have e: "components (model_n s0) = []"
    by simp
  have g: "index_of Generator (model_n s1) = [''grid'', ''pv'']"
    by (simp add: index_of_filter built_class_Generator [OF assms(2) e] built_simps selected_def)
  have l: "index_of Link (model_n s1) =
         [''electric_boiler'', ''ashp_heating'', ''ashp_cooling'', ''gshp_shallow_heating'',
          ''gshp_shallow_cooling'', ''gshp_deep_heating'', ''gshp_deep_cooling'',
          ''electrolyzer'', ''fuel_cell'']"
    by (simp add: index_of_filter built_class_Link [OF assms(2) e] built_simps
          all_devices_of_def)
  have s: "index_of StorageUnit (model_n s1) = [''battery'', ''h2_storage'']"
    by (simp add: index_of_filter built_class_StorageUnit [OF assms(2) e] built_simps
          all_devices_of_def)
  from g l s show ?thesis by blast
qed

text \<open>The small configuration, built with the selection omitted.\<close>

theorem build_model_default_portfolio_witness:
  "IESModel_init demo_data = Inr demo_model
   \<and> index_of Generator (model_n (projr (build_model demo_model None))) = [''grid'', ''pv'']
   \<and> length (index_of Link (model_n (projr (build_model demo_model None)))) = 9
   \<and> index_of StorageUnit (model_n (projr (build_model demo_model None)))
     = [''battery'', ''h2_storage'']"
  using build_model_default_portfolio [OF IESModel_init_demo build_model_demo_default]
  by (simp add: IESModel_init_demo)

end
